theory Spec2Isabelle
  imports Main
begin

section \<open>Shared vocabulary\<close>

text \<open>
  Python strings are modelled as HOL strings; a character stands for a code point in the
  range 0..255.  A \<^verbatim>\<open>datetime\<close> is modelled as an integer number of microseconds,
  so that \<^verbatim>\<open>timedelta(minutes=5)\<close> is the integer \<open>300000000\<close>.  Every reading of
  \<^verbatim>\<open>datetime.utcnow()\<close> is an explicit argument of the function that reads the clock.
\<close>

type_synonym datetime = int

definition minutes :: "int \<Rightarrow> int" where
  "minutes n = n * 60 * 1000000"

definition hours :: "int \<Rightarrow> int" where
  "hours n = n * 3600 * 1000000"

text \<open>Values stored in the untyped dictionaries of the source (job results, metadata).\<close>

datatype pyval = PNone | PBool bool | PInt int | PStr string

section \<open>Job (services/job\_manager.py)\<close>

datatype JobStatus = PENDING | RUNNING | COMPLETED | FAILED | CANCELLED

record Job =
  job_id :: string
  job_type :: string
  status :: JobStatus
  progress :: int
  current_step :: string
  logs :: "string list"
  metadata :: "(string \<times> pyval) list"
  created_at :: datetime
  started_at :: "datetime option"
  completed_at :: "datetime option"
  error :: "string option"
  result :: "(string \<times> pyval) list option"

text \<open>
  The job \<^verbatim>\<open>create_job\<close> builds:
  \<^verbatim>\<open>Job(job_id=..., job_type=job_type, metadata=metadata or {})\<close>, every other field
  at its dataclass default.
\<close>

definition new_job :: "string \<Rightarrow> string \<Rightarrow> (string \<times> pyval) list \<Rightarrow> datetime \<Rightarrow> Job" where
  "new_job jid jtype md now =
     \<lparr>job_id = jid, job_type = jtype, status = PENDING, progress = 0, current_step = [],
      logs = [], metadata = md, created_at = now, started_at = None, completed_at = None,
      error = None, result = None\<rparr>"

text \<open>
  \<^verbatim>\<open>Job.add_log\<close>: the entry is \<^verbatim>\<open>f"[{timestamp}] {message}"\<close>, where the timestamp
  is the ISO rendering of a fresh clock reading; the rendering \<open>ts\<close> is an argument.
\<close>

definition add_log :: "string \<Rightarrow> string \<Rightarrow> Job \<Rightarrow> Job" where
  "add_log ts message j = j\<lparr>logs := logs j @ [''['' @ ts @ ''] '' @ message]\<rparr>"

text \<open>
  \<^verbatim>\<open>Job.update_progress(progress, step=None)\<close>: \<^verbatim>\<open>if step:\<close> is false for
  \<^verbatim>\<open>None\<close> and for the empty string.
\<close>

definition update_progress :: "int \<Rightarrow> string option \<Rightarrow> Job \<Rightarrow> Job" where
  "update_progress p step j =
     (let j1 = j\<lparr>progress := min (max p 0) 100\<rparr>
      in case step of
           None \<Rightarrow> j1
         | Some s \<Rightarrow> if s = [] then j1 else j1\<lparr>current_step := s\<rparr>)"

definition start :: "datetime \<Rightarrow> string \<Rightarrow> Job \<Rightarrow> Job" where
  "start now ts j =
     add_log ts ''Job started'' (j\<lparr>status := RUNNING, started_at := Some now\<rparr>)"

definition complete :: "datetime \<Rightarrow> string \<Rightarrow> (string \<times> pyval) list option \<Rightarrow> Job \<Rightarrow> Job" where
  "complete now ts res j =
     add_log ts ''Job completed successfully''
       (j\<lparr>status := COMPLETED, completed_at := Some now, progress := 100, result := res\<rparr>)"

definition fail :: "datetime \<Rightarrow> string \<Rightarrow> string \<Rightarrow> Job \<Rightarrow> Job" where
  "fail now ts err j =
     add_log ts (''Job failed: '' @ err)
       (j\<lparr>status := FAILED, completed_at := Some now, error := Some err\<rparr>)"

definition cancel :: "datetime \<Rightarrow> string \<Rightarrow> Job \<Rightarrow> Job" where
  "cancel now ts j =
     add_log ts ''Job cancelled'' (j\<lparr>status := CANCELLED, completed_at := Some now\<rparr>)"


subsection \<open>The operations performed on a job while it is run and cancelled\<close>

text \<open>
  \<^verbatim>\<open>JobManager.run_job\<close> wraps the task function:
  \<^verbatim>\<open>
    try:
        job.start()
        await task_fn(job)
        if job.status == JobStatus.RUNNING:
            job.complete()
    except Exception as e:
        job.fail(str(e))
  \<close>
  The task function handed to it by its only caller finishes the job itself
  (\<^verbatim>\<open>_run_ssh_installation\<close> in services/panel\_service.py): it calls
  \<^verbatim>\<open>job.complete({...})\<close> at the end of the installation, and in its own
  \<^verbatim>\<open>except Exception as e\<close> it calls \<^verbatim>\<open>job.fail(str(e))\<close> and raises the
  exception again, so that the wrapper's handler then runs on a job that has already
  failed.  The operations below are the places where the wrapper and the task function set
  the status; each carries the clock reading and the log timestamp it uses.  None of the
  \<^verbatim>\<open>Job\<close> methods looks at the status before writing it; the only check is the
  wrapper's \<^verbatim>\<open>if job.status == JobStatus.RUNNING\<close>.
\<close>

datatype run_op =
    RunStart datetime string
  | TaskComplete datetime string "(string \<times> pyval) list option"
  | TaskFail datetime string string
  | RunReturn datetime string
  | RunRaise datetime string string

fun run_step :: "run_op \<Rightarrow> Job \<Rightarrow> Job" where
  "run_step (RunStart now ts) j = start now ts j"
| "run_step (TaskComplete now ts res) j = complete now ts res j"
| "run_step (TaskFail now ts msg) j = fail now ts msg j"
| "run_step (RunReturn now ts) j =
     (if status j = RUNNING then complete now ts None j else j)"
| "run_step (RunRaise now ts msg) j = fail now ts msg j"

text \<open>The states a job passes through under a sequence of these operations.\<close>

fun run_states :: "run_op list \<Rightarrow> Job \<Rightarrow> Job list" where
  "run_states [] j = []"
| "run_states (op # ops) j = run_step op j # run_states ops (run_step op j)"

text \<open>
  The body of \<^verbatim>\<open>cancel_job\<close> once the registry lookup has found the job:
  \<^verbatim>\<open>
    if job.status not in (JobStatus.PENDING, JobStatus.RUNNING):
        return False
    task = self._tasks.get(job_id)
    if task and not task.done():
        task.cancel()
        try:
            await task
        except asyncio.CancelledError:
            pass
    job.cancel()
    return True
  \<close>
  The status is checked once, before the task is awaited; \<^verbatim>\<open>job.cancel()\<close> runs
  after the wait, whatever the task and the wrapper have done to the job in between.
  The argument \<open>during\<close> lists what they do during the wait: nothing when there is no
  task, when it is done, or when it ends by the \<^verbatim>\<open>CancelledError\<close> (which neither
  \<^verbatim>\<open>except Exception\<close> catches).
\<close>

definition cancel_job_found ::
  "datetime \<Rightarrow> string \<Rightarrow> run_op list \<Rightarrow> Job \<Rightarrow> bool \<times> Job" where
  "cancel_job_found now ts during j =
     (if \<not> (status j = PENDING \<or> status j = RUNNING) then (False, j)
      else (True, cancel now ts (fold run_step during j)))"

text \<open>\<^verbatim>\<open>cancel_job(job_id)\<close> on the registry \<^verbatim>\<open>self._jobs\<close>.\<close>

definition cancel_job ::
  "datetime \<Rightarrow> string \<Rightarrow> run_op list \<Rightarrow> (string \<rightharpoonup> Job) \<Rightarrow> string \<Rightarrow>
   bool \<times> (string \<rightharpoonup> Job)" where
  "cancel_job now ts during jobs jid =
     (case jobs jid of
        None \<Rightarrow> (False, jobs)
      | Some j \<Rightarrow>
          (let (r, j') = cancel_job_found now ts during j
           in (r, if r then jobs(jid \<mapsto> j') else jobs)))"

text \<open>
  What happens to a job: an operation of its run, or a call of \<^verbatim>\<open>cancel_job\<close>
  together with what the run does while that call waits.
\<close>

datatype jm_op = Run run_op | CancelJob datetime string "run_op list"

fun jm_step :: "jm_op \<Rightarrow> Job \<Rightarrow> Job" where
  "jm_step (Run op) j = run_step op j"
| "jm_step (CancelJob now ts during) j = snd (cancel_job_found now ts during j)"

text \<open>The states strictly inside one step: those a waiting \<^verbatim>\<open>cancel_job\<close> passes.\<close>

fun jm_inner :: "jm_op \<Rightarrow> Job \<Rightarrow> Job list" where
  "jm_inner (Run op) j = []"
| "jm_inner (CancelJob now ts during) j =
     (if fst (cancel_job_found now ts during j) then run_states during j else [])"

text \<open>The successive states of a job under a sequence of steps.\<close>

fun jm_run :: "jm_op list \<Rightarrow> Job \<Rightarrow> Job list" where
  "jm_run [] j = [j]"
| "jm_run (op # ops) j = j # jm_inner op j @ jm_run ops (jm_step op j)"







section \<open>TokenInfo (clients/marzban\_client.py)\<close>

record TokenInfo =
  access_token :: string
  expires_at :: "datetime option"

text \<open>
  \<^verbatim>\<open>
    def is_expired(self) -> bool:
        if not self.expires_at:
            return False
        return datetime.utcnow() >= (self.expires_at - timedelta(minutes=5))
  \<close>
\<close>

definition is_expired :: "datetime \<Rightarrow> TokenInfo \<Rightarrow> bool" where
  "is_expired now t =
     (case expires_at t of
        None \<Rightarrow> False
      | Some e \<Rightarrow> now \<ge> e - minutes 5)"

section \<open>Terminal control sequences (clients/node\_manager\_client.py)\<close>

text \<open>
  \<^verbatim>\<open>_strip_ansi\<close> removes every match of the pattern
  \<^verbatim>\<open>\x1B(?:[@-Z\\-_]|\[[0-?]*[ -/]*[@-~])\<close>:
  an escape character followed either by one character of \<^verbatim>\<open>[@-Z\\-_]\<close>
  (codes 0x40..0x5A and 0x5C..0x5F), or by an opening bracket, any number of parameter
  characters (0x30..0x3F), any number of intermediate characters (0x20..0x2F) and one
  final character (0x40..0x7E).  The three classes after the bracket are disjoint, so the
  greedy match never has to give a character back.
\<close>

definition ESC :: char where
  "ESC = CHR 0x1B"

definition in_range :: "nat \<Rightarrow> nat \<Rightarrow> char \<Rightarrow> bool" where
  "in_range lo hi c = (lo \<le> of_char c \<and> of_char c \<le> hi)"

definition esc_single :: "char \<Rightarrow> bool" where
  "esc_single c = (in_range 0x40 0x5A c \<or> in_range 0x5C 0x5F c)"

definition csi_param :: "char \<Rightarrow> bool" where
  "csi_param = in_range 0x30 0x3F"

definition csi_inter :: "char \<Rightarrow> bool" where
  "csi_inter = in_range 0x20 0x2F"

definition csi_final :: "char \<Rightarrow> bool" where
  "csi_final = in_range 0x40 0x7E"

text \<open>The pattern matched at the head of the text: the text left after the match.\<close>

fun ansi_match :: "string \<Rightarrow> string option" where
  "ansi_match (c # d # ds) =
     (if c \<noteq> ESC then None
      else if esc_single d then Some ds
      else if d = CHR ''['' then
        (case dropWhile csi_inter (dropWhile csi_param ds) of
           [] \<Rightarrow> None
         | f # rest \<Rightarrow> if csi_final f then Some rest else None)
      else None)"
| "ansi_match _ = None"

lemma ansi_match_shorter: "ansi_match s = Some rest \<Longrightarrow> length rest < length s"
proof (cases s rule: ansi_match.cases)
  case (1 c d ds)
  assume a: "ansi_match s = Some rest"
  have "length (dropWhile csi_inter (dropWhile csi_param ds)) \<le> length ds"
    by (meson length_dropWhile_le order_trans)
  with a 1 show ?thesis
    by (auto split: if_splits list.splits)
qed auto

text \<open>
  \<^verbatim>\<open>ansi_escape.sub('', text)\<close>: scan from the left; where the pattern matches, drop
  the match and go on after it; elsewhere keep the character.
\<close>

function strip_ansi :: "string \<Rightarrow> string" where
  "strip_ansi [] = []"
| "strip_ansi (c # cs) =
     (case ansi_match (c # cs) of
        Some rest \<Rightarrow> strip_ansi rest
      | None \<Rightarrow> c # strip_ansi cs)"
  by pat_completeness auto
termination
  by (relation "measure length") (auto dest: ansi_match_shorter)

text \<open>Texts in which every escape character begins a complete control sequence.\<close>

fun every_esc_starts_sequence :: "string \<Rightarrow> bool" where
  "every_esc_starts_sequence [] = True"
| "every_esc_starts_sequence (c # cs) =
     ((c \<noteq> ESC \<or> ansi_match (c # cs) \<noteq> None) \<and> every_esc_starts_sequence cs)"

section \<open>Parsing the installer's output (clients/node\_manager\_client.py)\<close>

text \<open>
  The character classes of Python's \<^verbatim>\<open>re\<close> on \<^verbatim>\<open>str\<close> patterns, for code points up
  to 255: \<^verbatim>\<open>\s\<close> matches the characters \<^verbatim>\<open>str.isspace\<close> accepts (tab to carriage
  return, the four separators 0x1C..0x1F, the space, 0x85 and 0xA0), \<^verbatim>\<open>\d\<close> the ten
  decimal digits.  \<^verbatim>\<open>str.strip()\<close> trims the same white space.
\<close>

definition is_space :: "char \<Rightarrow> bool" where
  "is_space c = (in_range 9 13 c \<or> in_range 28 32 c \<or> of_char c = (133::nat) \<or> of_char c = (160::nat))"

definition is_digit :: "char \<Rightarrow> bool" where
  "is_digit = in_range 0x30 0x39"

text \<open>\<^verbatim>\<open>int(s)\<close> on a string of decimal digits.\<close>

definition int_of_digits :: "string \<Rightarrow> int" where
  "int_of_digits ds = foldl (\<lambda>a c. 10 * a + (int (of_char c) - 48)) 0 ds"

definition py_strip :: "string \<Rightarrow> string" where
  "py_strip s = rev (dropWhile is_space (rev (dropWhile is_space s)))"

definition starts_with :: "string \<Rightarrow> string \<Rightarrow> bool" where
  "starts_with label s = (take (length label) s = label)"

text \<open>
  \<^verbatim>\<open>re.search(pattern, text)\<close>: the match at the leftmost position where the pattern
  matches; \<open>m\<close> is the pattern matched at the head of a text, giving the captured group.
\<close>

fun re_search :: "(string \<Rightarrow> 'a option) \<Rightarrow> string \<Rightarrow> 'a option" where
  "re_search m [] = m []"
| "re_search m (c # cs) =
     (case m (c # cs) of Some g \<Rightarrow> Some g | None \<Rightarrow> re_search m cs)"

text \<open>
  \<^verbatim>\<open>LABEL\s+(\d+)\<close> at the head of a text.  White space and digits are disjoint, so the
  greedy white space is followed by a digit or the match fails.
\<close>

definition match_number_after :: "string \<Rightarrow> string \<Rightarrow> string option" where
  "match_number_after label s =
     (if starts_with label s then
        (let r = drop (length label) s;
             ds = takeWhile is_digit (dropWhile is_space r)
         in if takeWhile is_space r \<noteq> [] \<and> ds \<noteq> [] then Some ds else None)
      else None)"

text \<open>\<^verbatim>\<open>LABEL\s+(\S+)\<close> at the head of a text.\<close>

definition match_word_after :: "string \<Rightarrow> string \<Rightarrow> string option" where
  "match_word_after label s =
     (if starts_with label s then
        (let r = drop (length label) s;
             w = takeWhile (\<lambda>c. \<not> is_space c) (dropWhile is_space r)
         in if takeWhile is_space r \<noteq> [] \<and> w \<noteq> [] then Some w else None)
      else None)"

text \<open>\<^verbatim>\<open>\d+\.\<close> at the head of a text: the digits and the text after the dot.\<close>

definition digits_dot :: "string \<Rightarrow> (string \<times> string) option" where
  "digits_dot s =
     (case (takeWhile is_digit s, dropWhile is_digit s) of
        (d, c # rest) \<Rightarrow> if d \<noteq> [] \<and> c = CHR ''.'' then Some (d, rest) else None
      | (d, []) \<Rightarrow> None)"

text \<open>\<^verbatim>\<open>(\d+\.\d+\.\d+\.\d+)\<close> at the head of a text.\<close>

definition match_dotted_quad :: "string \<Rightarrow> string option" where
  "match_dotted_quad s =
     (case digits_dot s of
        None \<Rightarrow> None
      | Some (d1, r1) \<Rightarrow>
          (case digits_dot r1 of
             None \<Rightarrow> None
           | Some (d2, r2) \<Rightarrow>
               (case digits_dot r2 of
                  None \<Rightarrow> None
                | Some (d3, r3) \<Rightarrow>
                    (let d4 = takeWhile is_digit r3
                     in if d4 = [] then None
                        else Some (d1 @ ''.'' @ d2 @ ''.'' @ d3 @ ''.'' @ d4)))))"

text \<open>
  \<^verbatim>\<open>.*?:\s*(\d+\.\d+\.\d+\.\d+)\<close> at the head of a text: the lazy \<^verbatim>\<open>.*?\<close> tries the
  nearest colon first and moves on, over any character but a line feed, while what follows
  the colon is not an address.
\<close>

fun lazy_colon_quad :: "string \<Rightarrow> string option" where
  "lazy_colon_quad [] = None"
| "lazy_colon_quad (c # cs) =
     (case (if c = CHR '':'' then match_dotted_quad (dropWhile is_space cs) else None) of
        Some g \<Rightarrow> Some g
      | None \<Rightarrow> if c = CHR 0x0A then None else lazy_colon_quad cs)"

definition match_public_ip :: "string \<Rightarrow> string option" where
  "match_public_ip s =
     (if starts_with ''Use this IP'' s then lazy_colon_quad (drop (length ''Use this IP'') s)
      else None)"

record CommandResult =
  stdout :: string
  stderr :: string
  exit_code :: int

record InstallResult =
  ir_success :: bool
  ir_node_name :: string
  ir_service_port :: int
  ir_api_port :: int
  ir_install_dir :: "string option"
  ir_data_dir :: "string option"
  ir_public_ip :: "string option"
  ir_error :: "string option"

text \<open>
  \<^verbatim>\<open>NodeManagerClient._parse_install_output(result, name, service_port, api_port)\<close>.
  The error message is \<^verbatim>\<open>clean_output.strip() or "Installation failed"\<close>.
\<close>

definition parse_install_output :: "CommandResult \<Rightarrow> string \<Rightarrow> int \<Rightarrow> int \<Rightarrow> InstallResult" where
  "parse_install_output res name service_port api_port =
     (let output = stdout res @ stderr res;
          clean_output = strip_ansi output;
          actual_service_port =
            (case re_search (match_number_after ''SERVICE_PORT:'') clean_output of
               Some g \<Rightarrow> int_of_digits g | None \<Rightarrow> service_port);
          actual_api_port =
            (case re_search (match_number_after ''XRAY_API_PORT:'') clean_output of
               Some g \<Rightarrow> int_of_digits g | None \<Rightarrow> api_port)
      in if exit_code res \<noteq> 0 then
           \<lparr>ir_success = False, ir_node_name = name,
            ir_service_port = actual_service_port, ir_api_port = actual_api_port,
            ir_install_dir = None, ir_data_dir = None, ir_public_ip = None,
            ir_error = Some (if py_strip clean_output = [] then ''Installation failed''
                             else py_strip clean_output)\<rparr>
         else
           \<lparr>ir_success = True, ir_node_name = name,
            ir_service_port = actual_service_port, ir_api_port = actual_api_port,
            ir_install_dir = re_search (match_word_after ''Install Dir:'') clean_output,
            ir_data_dir = re_search (match_word_after ''Data Dir:'') clean_output,
            ir_public_ip = re_search match_public_ip clean_output,
            ir_error = None\<rparr>)"

text \<open>
  A labelled number at position \<open>i\<close> of a text, in words: the label, then white space,
  then the digits \<open>ds\<close>, and no further digit after them.
\<close>

definition labelled_number_at :: "string \<Rightarrow> string \<Rightarrow> nat \<Rightarrow> string \<Rightarrow> bool" where
  "labelled_number_at label s i ds =
     (i \<le> length s \<and>
      (\<exists>ws rest. drop i s = label @ ws @ ds @ rest \<and>
         ws \<noteq> [] \<and> list_all is_space ws \<and>
         ds \<noteq> [] \<and> list_all is_digit ds \<and>
         (case rest of [] \<Rightarrow> True | c # _ \<Rightarrow> \<not> is_digit c)))"

section \<open>Exceptions, events and the outside world\<close>

text \<open>
  The exceptions of the source that a caller can see.  \<^verbatim>\<open>str(e)\<close> is the message.
  \<open>ParamikoSSHException\<close> is \<^verbatim>\<open>paramiko.SSHException\<close>, \<open>HttpxError\<close> an
  \<^verbatim>\<open>httpx\<close> exception that reaches the caller as it is, \<open>PyException\<close> any other
  subclass of \<^verbatim>\<open>Exception\<close>.
\<close>

datatype exn =
    ValueError string
  | SSHClientError string
  | SSHConnectionError string
  | SSHCommandError string
  | ParamikoSSHException string
  | MarzbanClientError string
  | MarzbanConnectionError string
  | MarzbanAuthError string
  | MarzbanServerError string
  | MarzbanNotFoundError string
  | HttpxError string
  | PyException string

fun str_exn :: "exn \<Rightarrow> string" where
  "str_exn (ValueError m) = m"
| "str_exn (SSHClientError m) = m"
| "str_exn (SSHConnectionError m) = m"
| "str_exn (SSHCommandError m) = m"
| "str_exn (ParamikoSSHException m) = m"
| "str_exn (MarzbanClientError m) = m"
| "str_exn (MarzbanConnectionError m) = m"
| "str_exn (MarzbanAuthError m) = m"
| "str_exn (MarzbanServerError m) = m"
| "str_exn (MarzbanNotFoundError m) = m"
| "str_exn (HttpxError m) = m"
| "str_exn (PyException m) = m"

text \<open>\<^verbatim>\<open>str(n)\<close> for an integer, and the truth value of an optional string.\<close>

definition digit_char :: "nat \<Rightarrow> char" where
  "digit_char n = ''0123456789'' ! n"

fun string_of_nat :: "nat \<Rightarrow> string" where
  "string_of_nat n =
     (if n < 10 then [digit_char n]
      else string_of_nat (n div 10) @ [digit_char (n mod 10)])"

declare string_of_nat.simps [simp del]

definition string_of_int :: "int \<Rightarrow> string" where
  "string_of_int i =
     (if i < 0 then CHR ''-'' # string_of_nat (nat (- i)) else string_of_nat (nat i))"

definition truthy :: "string option \<Rightarrow> bool" where
  "truthy x = (case x of None \<Rightarrow> False | Some s \<Rightarrow> s \<noteq> [])"

text \<open>\<^verbatim>\<open>f"{x}"\<close> for an optional string: \<^verbatim>\<open>None\<close> prints as the word None.\<close>

definition str_opt :: "string option \<Rightarrow> string" where
  "str_opt x = (case x of None \<Rightarrow> ''None'' | Some s \<Rightarrow> s)"

text \<open>\<^verbatim>\<open>sep.join(xs)\<close>.\<close>

fun join :: "string \<Rightarrow> string list \<Rightarrow> string" where
  "join sep [] = []"
| "join sep [x] = x"
| "join sep (x # y # ys) = x @ sep @ join sep (y # ys)"

datatype ssh_auth = AuthKey string | AuthPassword string

text \<open>
  What the program does to the outside world (the remote host, the database, the panel),
  in the order it does it.  Every answer of the outside world is a function of the events
  so far, so a command may be answered differently the second time.
\<close>

datatype event =
    SshConnect string int string ssh_auth
  | SshClose
  | SshExec string nat
  | SftpWrite string string
  | SftpChmod string nat
  | GetCertificate int
  | CreateProfile string "(string \<times> pyval) list"
  | DbInsertNode "(string \<times> pyval) list"
  | DbUpdateStatus int int
  | DbDeleteNode int
  | AuditLog string int string string "(string \<times> pyval) list" "string option"
  | PanelCreateNode string string int int
  | PanelGetNodes int
  | PanelDeleteNode int int
  | HttpAuthenticate
  | HttpRequest string string "string option"
  | Sleep nat

datatype key_kind = RSAKey | Ed25519Key | ECDSAKey

datatype connect_outcome =
    ConnOk
  | ConnAuthenticationException string
  | ConnSSHException string
  | ConnException string

datatype exec_outcome =
    ExecOk CommandResult
  | ExecSSHException string
  | ExecRaises exn

record SSHClient =
  ssh_host :: string
  ssh_port :: int
  ssh_username :: string
  ssh_password :: "string option"
  ssh_private_key :: "string option"
  ssh_timeout :: nat

text \<open>The remote host and the key parsers of paramiko, as the program sees them.\<close>

record ssh_world =
  from_private_key :: "key_kind \<Rightarrow> string \<Rightarrow> exn + string"
  connect_answer :: "event list \<Rightarrow> SSHClient \<Rightarrow> ssh_auth \<Rightarrow> connect_outcome"
  exec_answer :: "event list \<Rightarrow> string \<Rightarrow> nat \<Rightarrow> exec_outcome"
  open_sftp_answer :: "event list \<Rightarrow> exn option"
  sftp_write_answer :: "event list \<Rightarrow> string \<Rightarrow> string \<Rightarrow> exn option"
  sftp_chmod_answer :: "event list \<Rightarrow> string \<Rightarrow> nat \<Rightarrow> exn option"
  close_answer :: "event list \<Rightarrow> exn option"

text \<open>
  The mutable part of an \<^verbatim>\<open>SSHClient\<close> (whether \<^verbatim>\<open>_client\<close> and \<^verbatim>\<open>_sftp\<close> are
  set) together with the events so far.
\<close>

record ssh_state =
  trace :: "event list"
  client_set :: bool
  sftp_set :: bool

section \<open>SSHClient (clients/ssh\_client.py)\<close>

text \<open>
  The key is tried as RSA, then Ed25519, then ECDSA; only \<^verbatim>\<open>paramiko.SSHException\<close>
  moves on to the next kind, and the last attempt is not guarded.
\<close>

definition load_private_key :: "'w ssh_world_scheme \<Rightarrow> string \<Rightarrow> exn + string" where
  "load_private_key w key =
     (case from_private_key w RSAKey key of
        Inr k \<Rightarrow> Inr k
      | Inl (ParamikoSSHException m) \<Rightarrow>
          (case from_private_key w Ed25519Key key of
             Inr k \<Rightarrow> Inr k
           | Inl (ParamikoSSHException m') \<Rightarrow> from_private_key w ECDSAKey key
           | Inl e \<Rightarrow> Inl e)
      | Inl e \<Rightarrow> Inl e)"

text \<open>\<^verbatim>\<open>SSHClient._connect_sync\<close>; \<^verbatim>\<open>connect\<close> runs it on the worker pool.\<close>

definition connect_sync ::
  "'w ssh_world_scheme \<Rightarrow> SSHClient \<Rightarrow> 'a ssh_state_scheme \<Rightarrow> (exn + unit) \<times> 'a ssh_state_scheme" where
  "connect_sync w c s =
     (let s1 = s\<lparr>client_set := True\<rparr>;
          auth =
            (if truthy (ssh_private_key c) then
               (case load_private_key w (the (ssh_private_key c)) of
                  Inl e \<Rightarrow> Inl e
                | Inr k \<Rightarrow> Inr (AuthKey k))
             else if truthy (ssh_password c) then Inr (AuthPassword (the (ssh_password c)))
             else Inl (SSHConnectionError ''No authentication method provided''))
      in case auth of
           Inl e \<Rightarrow> (Inl e, s1)
         | Inr a \<Rightarrow>
             (let s2 = s1\<lparr>trace := trace s1 @ [SshConnect (ssh_host c) (ssh_port c) (ssh_username c) a]\<rparr>
              in case connect_answer w (trace s1) c a of
                   ConnOk \<Rightarrow> (Inr (), s2)
                 | ConnAuthenticationException m \<Rightarrow>
                     (Inl (SSHConnectionError (''Authentication failed: '' @ m)), s2)
                 | ConnSSHException m \<Rightarrow> (Inl (SSHConnectionError (''SSH error: '' @ m)), s2)
                 | ConnException m \<Rightarrow>
                     (Inl (SSHConnectionError (''Connection failed: '' @ m)), s2)))"

definition connect ::
  "'w ssh_world_scheme \<Rightarrow> SSHClient \<Rightarrow> 'a ssh_state_scheme \<Rightarrow> (exn + unit) \<times> 'a ssh_state_scheme" where
  "connect w c s = connect_sync w c s"

text \<open>\<^verbatim>\<open>SSHClient.close\<close>: closes what is open and forgets it.\<close>

definition close ::
  "'w ssh_world_scheme \<Rightarrow> 'a ssh_state_scheme \<Rightarrow> (exn + unit) \<times> 'a ssh_state_scheme" where
  "close w s =
     (if client_set s \<or> sftp_set s then
        (let s1 = s\<lparr>trace := trace s @ [SshClose]\<rparr>
         in case close_answer w (trace s) of
              Some e \<Rightarrow> (Inl e, s1)
            | None \<Rightarrow> (Inr (), s1\<lparr>client_set := False, sftp_set := False\<rparr>))
      else (Inr (), s))"

text \<open>
  \<^verbatim>\<open>SSHClient.execute(command, timeout)\<close>: \<^verbatim>\<open>timeout or self.timeout\<close>, then
  \<^verbatim>\<open>_execute_sync\<close>, which turns \<^verbatim>\<open>paramiko.SSHException\<close> into
  \<^verbatim>\<open>SSHCommandError\<close> and lets every other exception through.
\<close>

definition execute ::
  "'w ssh_world_scheme \<Rightarrow> SSHClient \<Rightarrow> string \<Rightarrow> nat \<Rightarrow> 'a ssh_state_scheme \<Rightarrow>
   (exn + CommandResult) \<times> 'a ssh_state_scheme" where
  "execute w c command timeout s =
     (let t = (if timeout = 0 then ssh_timeout c else timeout)
      in if \<not> client_set s then (Inl (SSHClientError ''Not connected''), s)
         else
           (let s1 = s\<lparr>trace := trace s @ [SshExec command t]\<rparr>
            in case exec_answer w (trace s) command t of
                 ExecOk r \<Rightarrow> (Inr r, s1)
               | ExecSSHException m \<Rightarrow>
                   (Inl (SSHCommandError (''Command execution failed: '' @ m)), s1)
               | ExecRaises e \<Rightarrow> (Inl e, s1)))"

text \<open>
  \<^verbatim>\<open>SSHClient.upload_content(content, remote_path, mode)\<close>: the transfer session is
  opened on first use, the file is written, then its mode is set.
\<close>

definition upload_content ::
  "'w ssh_world_scheme \<Rightarrow> string \<Rightarrow> string \<Rightarrow> nat \<Rightarrow> 'a ssh_state_scheme \<Rightarrow>
   (exn + unit) \<times> 'a ssh_state_scheme" where
  "upload_content w content remote_path mode s =
     (if \<not> client_set s then (Inl (SSHClientError ''Not connected''), s)
      else
        (case (if sftp_set s then None else open_sftp_answer w (trace s)) of
           Some e \<Rightarrow> (Inl e, s)
         | None \<Rightarrow>
             (let s1 = s\<lparr>sftp_set := True, trace := trace s @ [SftpWrite remote_path content]\<rparr>
              in case sftp_write_answer w (trace s) remote_path content of
                   Some e \<Rightarrow> (Inl e, s1)
                 | None \<Rightarrow>
                     (let s2 = s1\<lparr>trace := trace s1 @ [SftpChmod remote_path mode]\<rparr>
                      in case sftp_chmod_answer w (trace s1) remote_path mode of
                           Some e \<Rightarrow> (Inl e, s2)
                         | None \<Rightarrow> (Inr (), s2)))))"

section \<open>Sequencing fallible steps\<close>

text \<open>
  A step takes the state and gives back either the exception it raised or its value,
  with the state it left.  \<open>and_then\<close> runs a second step on the value of the first and
  passes an exception on, as statements in sequence do.
\<close>

definition return :: "'a \<Rightarrow> 's \<Rightarrow> (exn + 'a) \<times> 's" where
  "return x s = (Inr x, s)"

definition raise :: "exn \<Rightarrow> 's \<Rightarrow> (exn + 'a) \<times> 's" where
  "raise e s = (Inl e, s)"

definition and_then ::
  "('s \<Rightarrow> (exn + 'a) \<times> 's) \<Rightarrow> ('a \<Rightarrow> 's \<Rightarrow> (exn + 'b) \<times> 's) \<Rightarrow> 's \<Rightarrow> (exn + 'b) \<times> 's" where
  "and_then m f s = (case m s of (Inl e, s') \<Rightarrow> (Inl e, s') | (Inr x, s') \<Rightarrow> f x s')"

section \<open>NodeManagerClient (clients/node\_manager\_client.py)\<close>

definition INSTALL_CLI_URL :: string where
  "INSTALL_CLI_URL =
     ''https://raw.githubusercontent.com/DrSaeedHub/Marzban-node-manager/main/install-cli.sh''"

definition is_cli_installed ::
  "'w ssh_world_scheme \<Rightarrow> SSHClient \<Rightarrow> 'a ssh_state_scheme \<Rightarrow> (exn + bool) \<times> 'a ssh_state_scheme" where
  "is_cli_installed w c =
     and_then (execute w c ''which marzban-node-manager'' 10)
       (\<lambda>r. return (exit_code r = 0))"

definition install_cli ::
  "'w ssh_world_scheme \<Rightarrow> SSHClient \<Rightarrow> 'a ssh_state_scheme \<Rightarrow> (exn + bool) \<times> 'a ssh_state_scheme" where
  "install_cli w c =
     and_then (execute w c (''curl -sSL '' @ INSTALL_CLI_URL @ '' | bash'') 120)
       (\<lambda>r. if exit_code r \<noteq> 0 then return False else is_cli_installed w c)"

text \<open>
  \<^verbatim>\<open>v?(\d+\.\d+\.\d+)\<close> at the head of a text, for \<^verbatim>\<open>get_cli_version\<close>.
\<close>

definition match_version :: "string \<Rightarrow> string option" where
  "match_version s =
     (let t = (case s of [] \<Rightarrow> [] | x # xs \<Rightarrow> if x = CHR ''v'' then xs else s)
      in case digits_dot t of
           None \<Rightarrow> None
         | Some (d1, r1) \<Rightarrow>
             (case digits_dot r1 of
                None \<Rightarrow> None
              | Some (d2, r2) \<Rightarrow>
                  (let d3 = takeWhile is_digit r2
                   in if d3 = [] then None else Some (d1 @ ''.'' @ d2 @ ''.'' @ d3))))"

definition get_cli_version ::
  "'w ssh_world_scheme \<Rightarrow> SSHClient \<Rightarrow> 'a ssh_state_scheme \<Rightarrow>
   (exn + string option) \<times> 'a ssh_state_scheme" where
  "get_cli_version w c =
     and_then (execute w c ''marzban-node-manager --version'' 10)
       (\<lambda>r. if exit_code r = 0 then
               return (Some (case re_search match_version (stdout r) of
                               Some g \<Rightarrow> g | None \<Rightarrow> py_strip (stdout r)))
             else return None)"

definition cert_path_of :: "string \<Rightarrow> string" where
  "cert_path_of name = ''/tmp/ssl_cert_'' @ name @ ''.pem''"

text \<open>
  The command line \<^verbatim>\<open>install_node\<close> builds: the port arguments only without
  \<^verbatim>\<open>auto_ports\<close>, the inbounds only for a non-empty list.
\<close>

definition install_command ::
  "string \<Rightarrow> string \<Rightarrow> int \<Rightarrow> int \<Rightarrow> string list option \<Rightarrow> bool \<Rightarrow> string" where
  "install_command name method service_port api_port inbounds auto_ports =
     ''marzban-node-manager install -n '' @ name @ '' -c '' @ cert_path_of name @
     '' -m '' @ method @ '' -y'' @
     (if \<not> auto_ports then
        '' -s '' @ string_of_int service_port @ '' -x '' @ string_of_int api_port
      else []) @
     (case inbounds of
        None \<Rightarrow> []
      | Some [] \<Rightarrow> []
      | Some (x # xs) \<Rightarrow> '' -i '' @ [CHR 0x27] @ join '','' (x # xs) @ [CHR 0x27])"

text \<open>
  \<^verbatim>\<open>install_node\<close> from the certificate upload on (the source from the comment
  ``Upload certificate to temp file'' to the end of the method):
  \<^verbatim>\<open>
    cert_path = f"/tmp/ssl_cert_{name}.pem"
    await self.ssh.upload_content(certificate, cert_path, mode=0o600)
    cmd = ...
    result = await self.ssh.execute(cmd, timeout=300)
    await self.ssh.execute(f"rm -f {cert_path}", timeout=10)
    return self._parse_install_output(result, name, service_port, api_port)
  \<close>
  The mode \<^verbatim>\<open>0o600\<close> is the number 384.
\<close>

definition install_node_from_upload ::
  "'w ssh_world_scheme \<Rightarrow> SSHClient \<Rightarrow> string \<Rightarrow> string \<Rightarrow> int \<Rightarrow> int \<Rightarrow> string \<Rightarrow>
   string list option \<Rightarrow> bool \<Rightarrow> 'a ssh_state_scheme \<Rightarrow>
   (exn + InstallResult) \<times> 'a ssh_state_scheme" where
  "install_node_from_upload w c name certificate service_port api_port method inbounds auto_ports =
     and_then (upload_content w certificate (cert_path_of name) 384)
       (\<lambda>_. and_then
          (execute w c (install_command name method service_port api_port inbounds auto_ports) 300)
          (\<lambda>res. and_then (execute w c (''rm -f '' @ cert_path_of name) 10)
             (\<lambda>_. return (parse_install_output res name service_port api_port))))"

text \<open>
  \<^verbatim>\<open>NodeManagerClient.install_node\<close>: the command line tool is installed first when
  it is missing; if that fails the method returns a failed result without touching the
  certificate.
\<close>

definition install_node ::
  "'w ssh_world_scheme \<Rightarrow> SSHClient \<Rightarrow> string \<Rightarrow> string \<Rightarrow> int \<Rightarrow> int \<Rightarrow> string \<Rightarrow>
   string list option \<Rightarrow> bool \<Rightarrow> 'a ssh_state_scheme \<Rightarrow>
   (exn + InstallResult) \<times> 'a ssh_state_scheme" where
  "install_node w c name certificate service_port api_port method inbounds auto_ports =
     and_then (is_cli_installed w c)
       (\<lambda>installed.
          and_then (if \<not> installed then install_cli w c else return True)
            (\<lambda>ok.
               if \<not> ok then
                 return \<lparr>ir_success = False, ir_node_name = name,
                         ir_service_port = service_port, ir_api_port = api_port,
                         ir_install_dir = None, ir_data_dir = None, ir_public_ip = None,
                         ir_error = Some ''Failed to install CLI''\<rparr>
               else install_node_from_upload w c name certificate service_port api_port
                      method inbounds auto_ports))"

definition uninstall_node ::
  "'w ssh_world_scheme \<Rightarrow> SSHClient \<Rightarrow> string \<Rightarrow> 'a ssh_state_scheme \<Rightarrow>
   (exn + bool) \<times> 'a ssh_state_scheme" where
  "uninstall_node w c name =
     and_then (execute w c (''marzban-node-manager uninstall -n '' @ name @ '' -y'') 120)
       (\<lambda>r. return (exit_code r = 0))"

subsection \<open>A remote host for worked examples\<close>

text \<open>
  A host on which the command line tool is present, file transfer and \<^verbatim>\<open>rm\<close> work,
  and the install command has the given outcome.
\<close>

definition host_with :: "exec_outcome \<Rightarrow> ssh_world" where
  "host_with install_outcome =
     \<lparr>from_private_key = (\<lambda>k key. Inl (ParamikoSSHException ''not a valid key'')),
      connect_answer = (\<lambda>h c a. ConnOk),
      exec_answer = (\<lambda>h cmd t.
         if cmd = ''which marzban-node-manager'' then
           ExecOk \<lparr>stdout = ''/usr/local/bin/marzban-node-manager'', stderr = [], exit_code = 0\<rparr>
         else if starts_with ''rm -f '' cmd then
           ExecOk \<lparr>stdout = [], stderr = [], exit_code = 0\<rparr>
         else install_outcome),
      open_sftp_answer = (\<lambda>h. None),
      sftp_write_answer = (\<lambda>h p x. None),
      sftp_chmod_answer = (\<lambda>h p m. None),
      close_answer = (\<lambda>h. None)\<rparr>"

definition root_at :: "string \<Rightarrow> SSHClient" where
  "root_at host =
     \<lparr>ssh_host = host, ssh_port = 22, ssh_username = ''root'', ssh_password = Some ''secret'',
      ssh_private_key = None, ssh_timeout = 30\<rparr>"

definition connected :: ssh_state where
  "connected = \<lparr>trace = [], client_set = True, sftp_set = False\<rparr>"

section \<open>NodeService.delete\_node (services/node\_service.py)\<close>

text \<open>
  The fields of a node row that \<^verbatim>\<open>delete_node\<close> reads, and the fields of a node as
  the panel lists it (\<^verbatim>\<open>node.get("name", "")\<close>, \<^verbatim>\<open>node.get("id")\<close>).
\<close>

record node_row =
  NodeName :: string
  MarzbanPanelID :: int
  SSHProfileID :: "int option"

record panel_node =
  pn_name :: "string option"
  pn_id :: "int option"

record NodeDeleteResponse =
  nd_success :: bool
  nd_local :: bool
  nd_marzban :: "bool option"
  nd_server :: "bool option"
  nd_errors :: "string list"

text \<open>
  The database, the panel and the credential store as \<^verbatim>\<open>delete_node\<close> sees them.
  \<open>get_client_answer\<close> tells whether \<^verbatim>\<open>_get_client\<close> could build a panel client.
\<close>

record node_world = ssh_world +
  find_node_answer :: "event list \<Rightarrow> int \<Rightarrow> exn + node_row option"
  get_client_answer :: "event list \<Rightarrow> int \<Rightarrow> exn + bool"
  get_nodes_answer :: "event list \<Rightarrow> int \<Rightarrow> exn + panel_node list"
  panel_delete_answer :: "event list \<Rightarrow> int \<Rightarrow> int \<Rightarrow> exn option"
  credentials_answer :: "event list \<Rightarrow> int \<Rightarrow> exn + SSHClient option"
  db_delete_answer :: "event list \<Rightarrow> int \<Rightarrow> exn + bool"
  log_audit_answer :: "event list \<Rightarrow> exn option"

text \<open>\<^verbatim>\<open>str.lower()\<close> on code points up to 255.\<close>

definition lower_char :: "char \<Rightarrow> char" where
  "lower_char c =
     (if in_range 65 90 c \<or> (in_range 192 222 c \<and> of_char c \<noteq> (215::nat))
      then char_of (of_char c + (32::nat)) else c)"

definition lower :: "string \<Rightarrow> string" where
  "lower s = map lower_char s"

text \<open>An optional integer is true when it is present and not zero.\<close>

definition truthy_int :: "int option \<Rightarrow> bool" where
  "truthy_int x = (case x of None \<Rightarrow> False | Some n \<Rightarrow> n \<noteq> 0)"

text \<open>
  \<^verbatim>\<open>_delete_from_marzban(panel_id, node_name)\<close>: the first panel node whose name
  equals the node's name, letter case apart, is deleted by its panel id.
\<close>

definition delete_from_marzban ::
  "'w node_world_scheme \<Rightarrow> int \<Rightarrow> string \<Rightarrow> event list \<Rightarrow> (exn + bool) \<times> event list" where
  "delete_from_marzban w panel_id node_name t =
     (case get_client_answer w t panel_id of
        Inl e \<Rightarrow> (Inl e, t)
      | Inr False \<Rightarrow> (Inl (ValueError ''Cannot connect to panel''), t)
      | Inr True \<Rightarrow>
          (let t1 = t @ [PanelGetNodes panel_id]
           in case get_nodes_answer w t panel_id of
                Inl e \<Rightarrow> (Inl e, t1)
              | Inr marzban_nodes \<Rightarrow>
                  (case find (\<lambda>node. lower (case pn_name node of None \<Rightarrow> [] | Some n \<Rightarrow> n) =
                                      lower node_name) marzban_nodes of
                     None \<Rightarrow> (Inr False, t1)
                   | Some marzban_node \<Rightarrow>
                       (if \<not> truthy_int (pn_id marzban_node) then (Inr False, t1)
                        else
                          (let t2 = t1 @ [PanelDeleteNode panel_id (the (pn_id marzban_node))]
                           in case panel_delete_answer w t1 panel_id (the (pn_id marzban_node)) of
                                Some e \<Rightarrow> (Inl e, t2)
                              | None \<Rightarrow> (Inr True, t2))))))"

text \<open>
  \<^verbatim>\<open>_uninstall_from_server(ssh_profile_id, node_name)\<close>: a fresh \<^verbatim>\<open>SSHClient\<close>
  is connected, the node is uninstalled, and the client is closed in a \<^verbatim>\<open>finally\<close>;
  an exception of \<^verbatim>\<open>close\<close> replaces the outcome of the body.
\<close>

definition uninstall_from_server ::
  "'w node_world_scheme \<Rightarrow> int \<Rightarrow> string \<Rightarrow> event list \<Rightarrow> (exn + bool) \<times> event list" where
  "uninstall_from_server w ssh_profile_id node_name t =
     (case credentials_answer w t ssh_profile_id of
        Inl e \<Rightarrow> (Inl e, t)
      | Inr None \<Rightarrow> (Inl (ValueError ''SSH profile not found or has no credentials''), t)
      | Inr (Some c) \<Rightarrow>
          (case and_then (connect w c) (\<lambda>_. uninstall_node w c node_name)
                  \<lparr>trace = t, client_set = False, sftp_set = False\<rparr> of
             (body, s1) \<Rightarrow>
               (case close w s1 of
                  (Inl e, s2) \<Rightarrow> (Inl e, trace s2)
                | (Inr _, s2) \<Rightarrow> (body, trace s2))))"

text \<open>The three layers of \<^verbatim>\<open>delete_node\<close>, each giving its flag and its error messages.\<close>

definition panel_layer ::
  "'w node_world_scheme \<Rightarrow> bool \<Rightarrow> node_row \<Rightarrow> event list \<Rightarrow>
   (bool option \<times> string list) \<times> event list" where
  "panel_layer w delete_from_marzban_flag existing t =
     (if delete_from_marzban_flag then
        (case delete_from_marzban w (MarzbanPanelID existing) (NodeName existing) t of
           (Inr marzban_deleted, t1) \<Rightarrow>
             ((Some marzban_deleted,
               if marzban_deleted then []
               else [''Node '' @ [CHR 0x27] @ NodeName existing @ [CHR 0x27] @
                     '' not found in Marzban panel'']), t1)
         | (Inl e, t1) \<Rightarrow>
             ((Some False, [''Failed to delete from Marzban: '' @ str_exn e]), t1))
      else ((None, []), t))"

definition server_layer ::
  "'w node_world_scheme \<Rightarrow> bool \<Rightarrow> node_row \<Rightarrow> event list \<Rightarrow>
   (bool option \<times> string list) \<times> event list" where
  "server_layer w delete_from_server_flag existing t =
     (if delete_from_server_flag then
        (if \<not> truthy_int (SSHProfileID existing) then
           ((Some False,
             [''Cannot uninstall from server: No SSH profile associated with this node'']), t)
         else
           (case uninstall_from_server w (the (SSHProfileID existing)) (NodeName existing) t of
              (Inr server_deleted, t1) \<Rightarrow>
                ((Some server_deleted,
                  if server_deleted then []
                  else [''Failed to uninstall node '' @ [CHR 0x27] @ NodeName existing @
                        [CHR 0x27] @ '' from server'']), t1)
            | (Inl e, t1) \<Rightarrow>
                ((Some False, [''Failed to uninstall from server: '' @ str_exn e]), t1)))
      else ((None, []), t))"

definition local_layer ::
  "'w node_world_scheme \<Rightarrow> int \<Rightarrow> bool \<Rightarrow> bool \<Rightarrow> string option \<Rightarrow> node_row \<Rightarrow>
   event list \<Rightarrow> (bool \<times> string list) \<times> event list" where
  "local_layer w node_id delete_from_marzban_flag delete_from_server_flag client_ip existing t =
     (let t1 = t @ [DbDeleteNode node_id]
      in case db_delete_answer w t node_id of
           Inl e \<Rightarrow> ((False, [''Failed to delete from local database: '' @ str_exn e]), t1)
         | Inr False \<Rightarrow> ((False, []), t1)
         | Inr True \<Rightarrow>
             (let t2 = t1 @ [AuditLog ''Node'' node_id ''DELETE''
                               (''Deleted node '' @ [CHR 0x27] @ NodeName existing @ [CHR 0x27])
                               [(''name'', PStr (NodeName existing)),
                                (''delete_from_marzban'', PBool delete_from_marzban_flag),
                                (''delete_from_server'', PBool delete_from_server_flag)]
                               client_ip]
              in case log_audit_answer w t1 of
                   Some e \<Rightarrow>
                     ((True, [''Failed to delete from local database: '' @ str_exn e]), t2)
                 | None \<Rightarrow> ((True, []), t2)))"

text \<open>
  \<^verbatim>\<open>NodeService.delete_node(node_id, delete_from_marzban, delete_from_server, client_ip)\<close>.
\<close>

definition delete_node ::
  "'w node_world_scheme \<Rightarrow> int \<Rightarrow> bool \<Rightarrow> bool \<Rightarrow> string option \<Rightarrow> event list \<Rightarrow>
   (exn + NodeDeleteResponse) \<times> event list" where
  "delete_node w node_id delete_from_marzban_flag delete_from_server_flag client_ip t =
     (case find_node_answer w t node_id of
        Inl e \<Rightarrow> (Inl e, t)
      | Inr None \<Rightarrow>
          (Inr \<lparr>nd_success = False, nd_local = False, nd_marzban = None, nd_server = None,
                 nd_errors = [''Node not found'']\<rparr>, t)
      | Inr (Some existing) \<Rightarrow>
          (case panel_layer w delete_from_marzban_flag existing t of
             ((marzban, errors1), t1) \<Rightarrow>
               (case server_layer w delete_from_server_flag existing t1 of
                  ((server, errors2), t2) \<Rightarrow>
                    (case local_layer w node_id delete_from_marzban_flag delete_from_server_flag
                            client_ip existing t2 of
                       ((local, errors3), t3) \<Rightarrow>
                         (Inr \<lparr>nd_success = local, nd_local = local, nd_marzban = marzban,
                                nd_server = server,
                                nd_errors = errors1 @ errors2 @ errors3\<rparr>, t3)))))"

text \<open>
  The events of the two upstream layers (panel calls and remote shell activity), and the
  fact that a list of events continues another by upstream events only.
\<close>

fun upstream_event :: "event \<Rightarrow> bool" where
  "upstream_event (PanelGetNodes p) = True"
| "upstream_event (PanelDeleteNode p i) = True"
| "upstream_event (SshConnect h p u a) = True"
| "upstream_event (SshExec c t) = True"
| "upstream_event SshClose = True"
| "upstream_event _ = False"

definition continues_upstream :: "event list \<Rightarrow> event list \<Rightarrow> bool" where
  "continues_upstream t t' = (\<exists>up. t' = t @ up \<and> list_all upstream_event up)"

subsection \<open>A world for scenario E\<close>

text \<open>
  The panel cannot be reached (listing its nodes raises a connection error), the server
  uninstall succeeds, and the local deletion succeeds.
\<close>

definition scenario_E_world :: node_world where
  "scenario_E_world =
     \<lparr>from_private_key = (\<lambda>k key. Inl (ParamikoSSHException ''not a valid key'')),
      connect_answer = (\<lambda>h c a. ConnOk),
      exec_answer = (\<lambda>h cmd t. ExecOk \<lparr>stdout = ''Node removed'', stderr = [], exit_code = 0\<rparr>),
      open_sftp_answer = (\<lambda>h. None),
      sftp_write_answer = (\<lambda>h p x. None),
      sftp_chmod_answer = (\<lambda>h p m. None),
      close_answer = (\<lambda>h. None),
      find_node_answer = (\<lambda>h node_id.
         Inr (Some \<lparr>NodeName = ''edge-1'', MarzbanPanelID = 3, SSHProfileID = Some 7\<rparr>)),
      get_client_answer = (\<lambda>h panel_id. Inr True),
      get_nodes_answer = (\<lambda>h panel_id.
         Inl (MarzbanConnectionError ''Network error: connection refused'')),
      panel_delete_answer = (\<lambda>h panel_id marzban_id. None),
      credentials_answer = (\<lambda>h profile_id. Inr (Some (root_at ''10.0.0.5''))),
      db_delete_answer = (\<lambda>h node_id. Inr True),
      log_audit_answer = (\<lambda>h. None)\<rparr>"

section \<open>MarzbanClient (clients/marzban\_client.py)\<close>

text \<open>
  What \<^verbatim>\<open>httpx\<close> can do on a call: answer with a response, raise one of its own
  exceptions, or raise something else.  \<^verbatim>\<open>TimeoutException\<close> and
  \<^verbatim>\<open>NetworkError\<close> are the two kinds the retry loop names; \<open>OtherHTTPError\<close> stands
  for the other subclasses of \<^verbatim>\<open>httpx.HTTPError\<close> a call can raise.
\<close>

record http_response =
  status_code :: nat
  content :: string

datatype httpx_exception =
    TimeoutException string
  | NetworkError string
  | OtherHTTPError string

datatype http_outcome =
    Response http_response
  | Raises httpx_exception
  | RaisesOther exn

fun str_httpx :: "httpx_exception \<Rightarrow> string" where
  "str_httpx (TimeoutException m) = m"
| "str_httpx (NetworkError m) = m"
| "str_httpx (OtherHTTPError m) = m"

text \<open>
  The panel and the library as the client sees them.  \<open>raises_for_status\<close> tells for
  which status codes \<^verbatim>\<open>response.raise_for_status()\<close> raises
  \<^verbatim>\<open>HTTPStatusError\<close>, and \<open>status_error_text\<close> is the text of that exception;
  \<open>json_answer\<close> is \<^verbatim>\<open>response.json()\<close>, \<open>access_token_answer\<close> is
  \<^verbatim>\<open>response.json()["access_token"]\<close>; both can raise.
\<close>

record http_world =
  utcnow_answer :: "event list \<Rightarrow> datetime"
  request_answer :: "event list \<Rightarrow> string \<Rightarrow> string \<Rightarrow> string option \<Rightarrow> http_outcome"
  token_answer :: "event list \<Rightarrow> http_outcome"
  raises_for_status :: "nat \<Rightarrow> bool"
  status_error_text :: "http_response \<Rightarrow> string"
  json_answer :: "string \<Rightarrow> exn + string"
  access_token_answer :: "string \<Rightarrow> exn + string"

record MarzbanClient =
  base_url :: string
  username :: "string option"
  password :: "string option"
  max_retries :: int

record client_state =
  events :: "event list"
  token :: "TokenInfo option"

text \<open>
  \<^verbatim>\<open>MarzbanClient.authenticate\<close>.  Every \<^verbatim>\<open>httpx.HTTPError\<close> becomes a
  \<^verbatim>\<open>MarzbanConnectionError\<close>; a 401 answer is \<^verbatim>\<open>MarzbanAuthError\<close>; the new
  token is given 24 hours.
\<close>

definition authenticate ::
  "http_world \<Rightarrow> MarzbanClient \<Rightarrow> client_state \<Rightarrow> (exn + TokenInfo) \<times> client_state" where
  "authenticate w c s =
     (if \<not> truthy (username c) \<or> \<not> truthy (password c) then
        (Inl (MarzbanAuthError ''Username and password required for authentication''), s)
      else
        (let s1 = s\<lparr>events := events s @ [HttpAuthenticate]\<rparr>
         in case token_answer w (events s) of
              Raises x \<Rightarrow>
                (Inl (MarzbanConnectionError (''Connection error during auth: '' @ str_httpx x)), s1)
            | RaisesOther e \<Rightarrow> (Inl e, s1)
            | Response r \<Rightarrow>
                (if status_code r = 401 then (Inl (MarzbanAuthError ''Invalid credentials''), s1)
                 else if raises_for_status w (status_code r) then
                   (Inl (MarzbanConnectionError
                           (''Connection error during auth: '' @ status_error_text w r)), s1)
                 else
                   (case access_token_answer w (content r) of
                      Inl e \<Rightarrow> (Inl e, s1)
                    | Inr tok \<Rightarrow>
                        (let t = \<lparr>access_token = tok,
                                  expires_at = Some (utcnow_answer w (events s1) + hours 24)\<rparr>
                         in (Inr t, s1\<lparr>token := Some t\<rparr>))))))"

definition ensure_authenticated ::
  "http_world \<Rightarrow> MarzbanClient \<Rightarrow> client_state \<Rightarrow> (exn + unit) \<times> client_state" where
  "ensure_authenticated w c s =
     (if (case token s of None \<Rightarrow> True | Some t \<Rightarrow> is_expired (utcnow_answer w (events s)) t)
      then (case authenticate w c s of
              (Inl e, s1) \<Rightarrow> (Inl e, s1)
            | (Inr _, s1) \<Rightarrow> (Inr (), s1))
      else (Inr (), s))"

text \<open>
  \<^verbatim>\<open>MarzbanClient._request(method, endpoint, json, params, retry_auth)\<close> and its
  loop \<^verbatim>\<open>for attempt in range(self._max_retries)\<close>.  The handlers of the loop body are
  \<^verbatim>\<open>
    except httpx.TimeoutException as e:   last_error = MarzbanConnectionError(...)
    except httpx.NetworkError as e:       last_error = MarzbanConnectionError(...)
    except (MarzbanAuthError, MarzbanNotFoundError):  raise
    except httpx.HTTPStatusError as e:    last_error = MarzbanClientError(...)
  \<close>
  so an exception of any other class raised in the body, \<^verbatim>\<open>MarzbanServerError\<close>
  included, leaves the loop.  After a handled exception the loop sleeps
  \<^verbatim>\<open>2 ** attempt\<close> seconds unless this was the last attempt.
\<close>

function request ::
    "http_world \<Rightarrow> MarzbanClient \<Rightarrow> string \<Rightarrow> string \<Rightarrow> bool \<Rightarrow> client_state \<Rightarrow>
     (exn + string option) \<times> client_state"
  and request_loop ::
    "http_world \<Rightarrow> MarzbanClient \<Rightarrow> string \<Rightarrow> string \<Rightarrow> bool \<Rightarrow> int \<Rightarrow> exn option \<Rightarrow>
     client_state \<Rightarrow> (exn + string option) \<times> client_state" where
  "request w c method endpoint retry_auth s =
     (case ensure_authenticated w c s of
        (Inl e, s1) \<Rightarrow> (Inl e, s1)
      | (Inr _, s1) \<Rightarrow> request_loop w c method endpoint retry_auth 0 None s1)"
| "request_loop w c method endpoint retry_auth attempt last_error s =
     (if max_retries c \<le> attempt then
        (Inl (case last_error of
                Some e \<Rightarrow> e
              | None \<Rightarrow> MarzbanConnectionError ''Max retries exceeded''), s)
      else
        (let s1 = s\<lparr>events := events s @
                     [HttpRequest method (base_url c @ endpoint) (map_option access_token (token s))]\<rparr>;
             backoff = (\<lambda>s'. if attempt < max_retries c - 1
                              then s'\<lparr>events := events s' @ [Sleep (2 ^ nat attempt)]\<rparr> else s')
         in case request_answer w (events s) method (base_url c @ endpoint)
                   (map_option access_token (token s)) of
              Raises (TimeoutException m) \<Rightarrow>
                request_loop w c method endpoint retry_auth (attempt + 1)
                  (Some (MarzbanConnectionError (''Request timeout: '' @ m))) (backoff s1)
            | Raises (NetworkError m) \<Rightarrow>
                request_loop w c method endpoint retry_auth (attempt + 1)
                  (Some (MarzbanConnectionError (''Network error: '' @ m))) (backoff s1)
            | Raises (OtherHTTPError m) \<Rightarrow> (Inl (HttpxError m), s1)
            | RaisesOther e \<Rightarrow> (Inl e, s1)
            | Response r \<Rightarrow>
                (if status_code r = 401 then
                   (if retry_auth then
                      (case authenticate w c s1 of
                         (Inl e, s2) \<Rightarrow> (Inl e, s2)
                       | (Inr _, s2) \<Rightarrow> request w c method endpoint False s2)
                    else (Inl (MarzbanAuthError ''Authentication failed''), s1))
                 else if status_code r = 404 then
                   (Inl (MarzbanNotFoundError (''Resource not found: '' @ endpoint)), s1)
                 else if status_code r \<ge> 500 then
                   (Inl (MarzbanServerError
                           (''Server error '' @ string_of_nat (status_code r) @ '': '' @ content r)),
                    s1)
                 else if raises_for_status w (status_code r) then
                   request_loop w c method endpoint retry_auth (attempt + 1)
                     (Some (MarzbanClientError (''HTTP error: '' @ status_error_text w r)))
                     (backoff s1)
                 else if content r \<noteq> [] then
                   (case json_answer w (content r) of
                      Inl e \<Rightarrow> (Inl e, s1)
                    | Inr v \<Rightarrow> (Inr (Some v), s1))
                 else (Inr None, s1))))"
  by pat_completeness auto
termination
  by (relation "measures
       [\<lambda>x. case x of Inl (w, c, m, e, ra, s) \<Rightarrow> (if ra then 1 else 0)
                     | Inr (w, c, m, e, ra, a, l, s) \<Rightarrow> (if ra then 1 else 0),
        \<lambda>x. case x of Inl (w, c, m, e, ra, s) \<Rightarrow> Suc (nat (max_retries c))
                     | Inr (w, c, m, e, ra, a, l, s) \<Rightarrow> nat (max_retries c - a)]")
     auto

declare request.simps [simp del] request_loop.simps [simp del]

subsection \<open>A panel for worked examples\<close>

text \<open>
  A panel that gives every call the same outcome, seen through a library whose
  \<^verbatim>\<open>raise_for_status\<close> raises from status 400 on.
\<close>

definition panel_always :: "http_outcome \<Rightarrow> http_world" where
  "panel_always outcome =
     \<lparr>utcnow_answer = (\<lambda>h. 0),
      request_answer = (\<lambda>h m u tok. outcome),
      token_answer = (\<lambda>h. outcome),
      raises_for_status = (\<lambda>n. 400 \<le> n),
      status_error_text = (\<lambda>r. ''status '' @ string_of_nat (status_code r)),
      json_answer = (\<lambda>body. Inr body),
      access_token_answer = (\<lambda>body. Inr body)\<rparr>"

text \<open>A client built with an access token: the token has no expiry time.\<close>

definition client_with_token :: MarzbanClient where
  "client_with_token =
     \<lparr>base_url = ''https://panel.example'', username = None, password = None, max_retries = 3\<rparr>"

definition state_with_token :: client_state where
  "state_with_token = \<lparr>events = [], token = Some \<lparr>access_token = ''tok'', expires_at = None\<rparr>\<rparr>"

section \<open>SSHInstallService (services/ssh\_install\_service.py)\<close>

record SSHInstallRequest =
  rq_ssh_profile_id :: "int option"
  rq_ssh_host :: "string option"
  rq_ssh_port :: int
  rq_ssh_username :: string
  rq_ssh_password :: "string option"
  rq_ssh_private_key :: "string option"
  rq_node_name :: string
  rq_service_port :: int
  rq_api_port :: int
  rq_install_docker :: bool
  rq_auto_start :: bool
  rq_auto_ports :: bool
  rq_inbounds :: "string list option"

record InstallJob =
  ij_job_id :: string
  ij_panel_id :: int
  ij_node_name :: string
  ij_status :: string
  ij_progress :: int
  ij_current_step :: string
  ij_logs :: "string list"
  ij_started_at :: "datetime option"
  ij_completed_at :: "datetime option"
  ij_error :: "string option"
  ij_result :: "(string \<times> pyval) list option"

text \<open>
  The collaborators of the service: the clock, the credential profiles, the panel
  certificate, the node table, the panel and the audit log.  \<open>certificate_answer\<close> is
  the outcome of \<^verbatim>\<open>_get_certificate\<close> as a whole (cached certificate or a fetch from
  the panel); \<open>panel_access_answer\<close> gives the panel address and access token that
  \<^verbatim>\<open>_register_node\<close> looks up, if both exist.
\<close>

record install_world = ssh_world +
  clock :: "event list \<Rightarrow> datetime"
  settings_ssh_timeout :: nat
  profile_credentials :: "event list \<Rightarrow> int \<Rightarrow> exn + SSHClient option"
  find_profile_by_name :: "event list \<Rightarrow> string \<Rightarrow> exn + bool"
  uuid4_answer :: "event list \<Rightarrow> string"
  create_profile_answer :: "event list \<Rightarrow> string \<Rightarrow> exn + int"
  certificate_answer :: "event list \<Rightarrow> int \<Rightarrow> exn + string option"
  insert_node_answer :: "event list \<Rightarrow> (string \<times> pyval) list \<Rightarrow> exn + int"
  panel_access_answer :: "event list \<Rightarrow> int \<Rightarrow> exn + (string \<times> string) option"
  create_node_answer :: "event list \<Rightarrow> string \<Rightarrow> string \<Rightarrow> int \<Rightarrow> int \<Rightarrow> exn option"
  update_status_answer :: "event list \<Rightarrow> int \<Rightarrow> int \<Rightarrow> exn option"
  audit_answer :: "event list \<Rightarrow> exn option"

record run_state = ssh_state +
  job :: InstallJob

text \<open>Asking the outside world, with and without a recorded event, and changing the job.\<close>

definition world_read ::
  "(event list \<Rightarrow> exn + 'r) \<Rightarrow> 'a ssh_state_scheme \<Rightarrow> (exn + 'r) \<times> 'a ssh_state_scheme" where
  "world_read answer s = (answer (trace s), s)"

definition world_call ::
  "event \<Rightarrow> (event list \<Rightarrow> exn + 'r) \<Rightarrow> 'a ssh_state_scheme \<Rightarrow>
   (exn + 'r) \<times> 'a ssh_state_scheme" where
  "world_call ev answer s = (answer (trace s), s\<lparr>trace := trace s @ [ev]\<rparr>)"

definition raised :: "exn option \<Rightarrow> exn + unit" where
  "raised x = (case x of None \<Rightarrow> Inr () | Some e \<Rightarrow> Inl e)"

definition change_job ::
  "(InstallJob \<Rightarrow> InstallJob) \<Rightarrow> 'a run_state_scheme \<Rightarrow> (exn + unit) \<times> 'a run_state_scheme" where
  "change_job f s = (Inr (), s\<lparr>job := f (job s)\<rparr>)"

text \<open>\<^verbatim>\<open>InstallJob.add_log(message)\<close> appends the message as it is.\<close>

definition ij_add_log :: "string \<Rightarrow> InstallJob \<Rightarrow> InstallJob" where
  "ij_add_log message j = j\<lparr>ij_logs := ij_logs j @ [message]\<rparr>"

definition pyval_of_opt :: "string option \<Rightarrow> pyval" where
  "pyval_of_opt x = (case x of None \<Rightarrow> PNone | Some s \<Rightarrow> PStr s)"

text \<open>
  \<^verbatim>\<open>async with SSHClient(...) as ssh:\<close> the client is new, it is connected on entry
  and closed on every exit of the body; an exception of \<^verbatim>\<open>close\<close> replaces the
  outcome of the body.
\<close>

definition with_ssh ::
  "'w ssh_world_scheme \<Rightarrow> SSHClient \<Rightarrow>
   ('a ssh_state_scheme \<Rightarrow> (exn + 'r) \<times> 'a ssh_state_scheme) \<Rightarrow>
   'a ssh_state_scheme \<Rightarrow> (exn + 'r) \<times> 'a ssh_state_scheme" where
  "with_ssh w c body s =
     (case connect w c (s\<lparr>client_set := False, sftp_set := False\<rparr>) of
        (Inl e, s1) \<Rightarrow> (Inl e, s1)
      | (Inr _, s1) \<Rightarrow>
          (case body s1 of
             (r, s2) \<Rightarrow>
               (case close w s2 of
                  (Inl e, s3) \<Rightarrow> (Inl e, s3)
                | (Inr _, s3) \<Rightarrow> (r, s3))))"

text \<open>
  \<^verbatim>\<open>_get_ssh_credentials(request)\<close>: the stored profile when the request names one,
  the inline fields otherwise (a missing inline host prints as the word None).
\<close>

definition get_ssh_credentials ::
  "'w install_world_scheme \<Rightarrow> SSHInstallRequest \<Rightarrow> 'a run_state_scheme \<Rightarrow>
   (exn + SSHClient) \<times> 'a run_state_scheme" where
  "get_ssh_credentials w req =
     (if truthy_int (rq_ssh_profile_id req) then
        and_then (world_read (\<lambda>h. profile_credentials w h (the (rq_ssh_profile_id req))))
          (\<lambda>creds. case creds of
                     None \<Rightarrow> raise (ValueError ''SSH profile not found'')
                   | Some c \<Rightarrow> return c)
      else
        return \<lparr>ssh_host = str_opt (rq_ssh_host req), ssh_port = rq_ssh_port req,
                ssh_username = rq_ssh_username req,
                ssh_password = rq_ssh_password req,
                ssh_private_key = rq_ssh_private_key req,
                ssh_timeout = settings_ssh_timeout w\<rparr>)"

text \<open>\<^verbatim>\<open>_get_or_create_ssh_profile(request, job)\<close>.\<close>

definition get_or_create_ssh_profile ::
  "'w install_world_scheme \<Rightarrow> SSHInstallRequest \<Rightarrow> 'a run_state_scheme \<Rightarrow>
   (exn + int) \<times> 'a run_state_scheme" where
  "get_or_create_ssh_profile w req =
     (if truthy_int (rq_ssh_profile_id req) then
        and_then (change_job (ij_add_log (''Using existing SSH profile (ID: '' @
                     string_of_int (the (rq_ssh_profile_id req)) @ '')'')))
          (\<lambda>_. return (the (rq_ssh_profile_id req)))
      else
        and_then (world_read (\<lambda>h. find_profile_by_name w h (''SSH-'' @ rq_node_name req)))
          (\<lambda>existing.
             and_then (world_read (\<lambda>h. Inr (uuid4_answer w h)))
               (\<lambda>uuid.
                  (let profile_name =
                         (if existing then ''SSH-'' @ rq_node_name req @ ''-'' @ take 8 uuid
                          else ''SSH-'' @ rq_node_name req)
                   in and_then (change_job (ij_add_log (''Creating SSH profile: '' @ profile_name)))
                        (\<lambda>_. and_then
                           (world_call
                              (CreateProfile profile_name
                                 [(''host'', pyval_of_opt (rq_ssh_host req)),
                                  (''port'', PInt (rq_ssh_port req)),
                                  (''username'', PStr (rq_ssh_username req)),
                                  (''password'', pyval_of_opt (rq_ssh_password req)),
                                  (''private_key'', pyval_of_opt (rq_ssh_private_key req)),
                                  (''use_key_auth'', PBool (truthy (rq_ssh_private_key req))),
                                  (''default_service_port'', PInt (rq_service_port req)),
                                  (''default_api_port'', PInt (rq_api_port req)),
                                  (''install_docker'', PBool (rq_install_docker req)),
                                  (''auto_start_node'', PBool (rq_auto_start req))])
                              (\<lambda>h. create_profile_answer w h profile_name))
                           (\<lambda>ssh_profile_id.
                              and_then (change_job (ij_add_log (''SSH profile created (ID: '' @
                                           string_of_int ssh_profile_id @ '')'')))
                                (\<lambda>_. return ssh_profile_id)))))))"

text \<open>
  \<^verbatim>\<open>_register_node(panel_id, node_name, address, service_port, api_port, ssh_profile_id, client_ip)\<close>:
  the node row is inserted first, then the panel is told, in a
  \<^verbatim>\<open>try ... except Exception\<close> that only logs, then the audit record is written.
  \<^verbatim>\<open>StatusEnum.CONNECTING\<close> is 20 and \<^verbatim>\<open>StatusEnum.CONNECTED\<close> is 10.
\<close>

definition register_node ::
  "'w install_world_scheme \<Rightarrow> int \<Rightarrow> string \<Rightarrow> string \<Rightarrow> int \<Rightarrow> int \<Rightarrow> int \<Rightarrow>
   string option \<Rightarrow> 'a run_state_scheme \<Rightarrow> (exn + int) \<times> 'a run_state_scheme" where
  "register_node w panel_id node_name address service_port api_port ssh_profile_id client_ip =
     (let node_data =
            [(''MarzbanPanelID'', PInt panel_id), (''NodeName'', PStr node_name),
             (''Address'', PStr address), (''ServicePort'', PInt service_port),
             (''APIPort'', PInt api_port), (''NodeStatusID'', PInt 20)] @
            (if ssh_profile_id \<noteq> 0 then [(''SSHProfileID'', PInt ssh_profile_id)] else [])
      in and_then (world_call (DbInsertNode node_data) (\<lambda>h. insert_node_answer w h node_data))
           (\<lambda>node_id.
              and_then
                (\<lambda>s. case and_then (world_read (\<lambda>h. panel_access_answer w h panel_id))
                              (\<lambda>access. case access of
                                  None \<Rightarrow> return ()
                                | Some (panel_url, panel_token) \<Rightarrow>
                                    and_then
                                      (world_call
                                         (PanelCreateNode node_name address service_port api_port)
                                         (\<lambda>h. raised (create_node_answer w h node_name address
                                                          service_port api_port)))
                                      (\<lambda>_. world_call (DbUpdateStatus node_id 10)
                                              (\<lambda>h. raised (update_status_answer w h node_id 10)))) s of
                        (outcome, s') \<Rightarrow> (Inr (), s'))
                (\<lambda>_. and_then
                   (world_call
                      (AuditLog ''Node'' node_id ''SSH_INSTALL''
                         (''Installed node '' @ [CHR 0x27] @ node_name @ [CHR 0x27] @ '' via SSH'')
                         [(''address'', PStr address),
                          (''ports'', PStr (string_of_int service_port @ ''/'' @
                                           string_of_int api_port))]
                         client_ip)
                      (\<lambda>h. raised (audit_answer w h)))
                   (\<lambda>_. return node_id))))"

text \<open>
  The body of the \<^verbatim>\<open>async with\<close> of \<^verbatim>\<open>_run_installation\<close> (steps 4 to 6 and the
  completion).  The call of \<^verbatim>\<open>nm.install_node\<close> passes name, certificate, the two
  requested ports, \<^verbatim>\<open>method="docker"\<close> and the inbounds; it passes no
  \<^verbatim>\<open>auto_ports\<close>, so the parameter takes its default \<^verbatim>\<open>False\<close>.
\<close>

definition installation_body ::
  "'w install_world_scheme \<Rightarrow> SSHInstallRequest \<Rightarrow> string option \<Rightarrow> SSHClient \<Rightarrow> int \<Rightarrow>
   string \<Rightarrow> 'a run_state_scheme \<Rightarrow> (exn + unit) \<times> 'a run_state_scheme" where
  "installation_body w req client_ip ssh_creds ssh_profile_id certificate =
     and_then (change_job (\<lambda>j. (ij_add_log (''Connected to '' @ ssh_host ssh_creds) j)
                 \<lparr>ij_current_step := ''Checking node-manager CLI'', ij_progress := 30\<rparr>))
       (\<lambda>_. and_then (is_cli_installed w ssh_creds)
          (\<lambda>installed.
             and_then
               (if \<not> installed then
                  and_then (change_job (\<lambda>j. (ij_add_log ''Installing node-manager CLI...'' j)
                              \<lparr>ij_current_step := ''Installing CLI'', ij_progress := 40\<rparr>))
                    (\<lambda>_. and_then (install_cli w ssh_creds)
                       (\<lambda>ok. if \<not> ok then raise (ValueError ''Failed to install node-manager CLI'')
                             else change_job (ij_add_log ''CLI installed successfully'')))
                else
                  and_then (get_cli_version w ssh_creds)
                    (\<lambda>version. change_job (ij_add_log (''CLI already installed (v'' @
                                              str_opt version @ '')''))))
               (\<lambda>_. and_then
                  (change_job (\<lambda>j. ij_add_log (''Installing node '' @ [CHR 0x27] @
                                 rq_node_name req @ [CHR 0x27] @ ''...'')
                                 (j\<lparr>ij_current_step := ''Installing node'', ij_progress := 60\<rparr>)))
                  (\<lambda>_. and_then
                     (install_node w ssh_creds (rq_node_name req) certificate
                        (rq_service_port req) (rq_api_port req) ''docker''
                        (rq_inbounds req) False)
                     (\<lambda>install_result.
                        if \<not> ir_success install_result then
                          raise (ValueError (''Installation failed: '' @
                                   str_opt (ir_error install_result)))
                        else
                          (let address = (if truthy (ir_public_ip install_result)
                                          then the (ir_public_ip install_result)
                                          else ssh_host ssh_creds)
                           in and_then
                                (change_job (\<lambda>j. ij_add_log ''Registering node in Marzban panel...''
                                   ((ij_add_log ''Node installed successfully'' j)
                                      \<lparr>ij_progress := 80,
                                       ij_current_step := ''Registering node in Marzban''\<rparr>)))
                                (\<lambda>_. and_then
                                   (\<lambda>s. register_node w (ij_panel_id (job s)) (rq_node_name req)
                                           address (ir_service_port install_result)
                                           (ir_api_port install_result) ssh_profile_id client_ip s)
                                   (\<lambda>node_id.
                                      and_then (world_read (\<lambda>h. Inr (clock w h)))
                                        (\<lambda>now.
                                           change_job (\<lambda>j. ij_add_log ''Installation complete!''
                                             ((ij_add_log (''Node registered with ID: '' @
                                                  string_of_int node_id) j)
                                                \<lparr>ij_progress := 100,
                                                 ij_status := ''completed'',
                                                 ij_completed_at := Some now,
                                                 ij_result := Some
                                                   [(''node_id'', PInt node_id),
                                                    (''node_name'', PStr (rq_node_name req)),
                                                    (''address'', PStr address),
                                                    (''service_port'',
                                                       PInt (ir_service_port install_result)),
                                                    (''api_port'',
                                                       PInt (ir_api_port install_result)),
                                                    (''ssh_profile_id'', PInt ssh_profile_id)]
                                                \<rparr>)))))))))))"

text \<open>
  The \<^verbatim>\<open>try\<close> block of \<^verbatim>\<open>_run_installation\<close> (steps 1 to 3, then the
  \<^verbatim>\<open>async with\<close>).
\<close>

definition installation_steps ::
  "'w install_world_scheme \<Rightarrow> SSHInstallRequest \<Rightarrow> string option \<Rightarrow> 'a run_state_scheme \<Rightarrow>
   (exn + unit) \<times> 'a run_state_scheme" where
  "installation_steps w req client_ip =
     and_then (change_job (\<lambda>j. ij_add_log ''Preparing SSH credentials...''
                 (j\<lparr>ij_current_step := ''Preparing SSH credentials'', ij_progress := 5\<rparr>)))
       (\<lambda>_. and_then (get_ssh_credentials w req)
          (\<lambda>ssh_creds. and_then (get_or_create_ssh_profile w req)
             (\<lambda>ssh_profile_id.
                and_then (change_job (\<lambda>j. ij_add_log ''Fetching certificate from panel...''
                            (j\<lparr>ij_current_step := ''Fetching certificate'', ij_progress := 10\<rparr>)))
                  (\<lambda>_. and_then
                     (\<lambda>s. world_call (GetCertificate (ij_panel_id (job s)))
                             (\<lambda>h. certificate_answer w h (ij_panel_id (job s))) s)
                     (\<lambda>certificate.
                        if \<not> truthy certificate then
                          raise (ValueError ''Failed to fetch certificate from panel'')
                        else
                          and_then
                            (change_job (\<lambda>j. ij_add_log (''Connecting to '' @ ssh_host ssh_creds @
                                            '':'' @ string_of_int (ssh_port ssh_creds) @ ''...'')
                               ((ij_add_log ''Certificate fetched successfully'' j)
                                  \<lparr>ij_current_step := ''Connecting to server'',
                                   ij_progress := 20\<rparr>)))
                            (\<lambda>_. with_ssh w ssh_creds
                                    (installation_body w req client_ip ssh_creds
                                       ssh_profile_id (the certificate))))))))"

text \<open>
  \<^verbatim>\<open>SSHInstallService._run_installation(job, request, client_ip)\<close>: every exception
  of the steps ends in the handler that marks the job failed.
\<close>

definition run_installation ::
  "'w install_world_scheme \<Rightarrow> SSHInstallRequest \<Rightarrow> string option \<Rightarrow> 'a run_state_scheme \<Rightarrow>
   'a run_state_scheme" where
  "run_installation w req client_ip s =
     (let s0 = s\<lparr>job := (job s)\<lparr>ij_status := ''running'',
                                 ij_started_at := Some (clock w (trace s))\<rparr>\<rparr>
      in case installation_steps w req client_ip s0 of
           (Inr _, s1) \<Rightarrow> s1
         | (Inl e, s1) \<Rightarrow>
             s1\<lparr>job := ij_add_log (''Error: '' @ str_exn e)
                         ((job s1)\<lparr>ij_status := ''failed'',
                                   ij_completed_at := Some (clock w (trace s1)),
                                   ij_error := Some (str_exn e)\<rparr>)\<rparr>)"

subsection \<open>A world for scenario C\<close>

text \<open>
  The command line tool is present on the host; the install command succeeds and reports
  the ports 62060 and 62061; the database gives the new node the id 41; the panel is
  reachable with a stored token.
\<close>

definition scenario_C_world :: install_world where
  "scenario_C_world =
     \<lparr>from_private_key = (\<lambda>k key. Inl (ParamikoSSHException ''not a valid key'')),
      connect_answer = (\<lambda>h c a. ConnOk),
      exec_answer = (\<lambda>h cmd t.
         if cmd = ''which marzban-node-manager'' then
           ExecOk \<lparr>stdout = ''/usr/local/bin/marzban-node-manager'', stderr = [], exit_code = 0\<rparr>
         else if cmd = ''marzban-node-manager --version'' then
           ExecOk \<lparr>stdout = ''Marzban Node Manager v1.2.0'', stderr = [], exit_code = 0\<rparr>
         else if starts_with ''rm -f '' cmd then
           ExecOk \<lparr>stdout = [], stderr = [], exit_code = 0\<rparr>
         else
           ExecOk \<lparr>stdout = ''  SERVICE_PORT:        62060'' @ [CHR 0x0A] @
                             ''  XRAY_API_PORT:       62061'' @ [CHR 0x0A],
                    stderr = [], exit_code = 0\<rparr>),
      open_sftp_answer = (\<lambda>h. None),
      sftp_write_answer = (\<lambda>h p x. None),
      sftp_chmod_answer = (\<lambda>h p m. None),
      close_answer = (\<lambda>h. None),
      clock = (\<lambda>h. 1000 + int (length h)),
      settings_ssh_timeout = 30,
      profile_credentials = (\<lambda>h profile_id. Inr (Some (root_at ''10.0.0.5''))),
      find_profile_by_name = (\<lambda>h name. Inr False),
      uuid4_answer = (\<lambda>h. ''0f8fad5b-d9cb-469f-a165-70867728950e''),
      create_profile_answer = (\<lambda>h name. Inr 7),
      certificate_answer = (\<lambda>h panel_id. Inr (Some ''CERT'')),
      insert_node_answer = (\<lambda>h node_data. Inr 41),
      panel_access_answer = (\<lambda>h panel_id. Inr (Some (''https://panel.example'', ''tok''))),
      create_node_answer = (\<lambda>h name address port api_port. None),
      update_status_answer = (\<lambda>h node_id status_id. None),
      audit_answer = (\<lambda>h. None)\<rparr>"

text \<open>The request of scenario C: ports 62050 and 62051 requested, \<^verbatim>\<open>auto_ports\<close> set.\<close>

definition scenario_C_request :: SSHInstallRequest where
  "scenario_C_request =
     \<lparr>rq_ssh_profile_id = Some 7, rq_ssh_host = None, rq_ssh_port = 22,
      rq_ssh_username = ''root'', rq_ssh_password = None, rq_ssh_private_key = None,
      rq_node_name = ''node1'', rq_service_port = 62050, rq_api_port = 62051,
      rq_install_docker = True, rq_auto_start = True, rq_auto_ports = True,
      rq_inbounds = None\<rparr>"

text \<open>
  \<^verbatim>\<open>InstallJob(job_id=job_id, panel_id=panel_id, node_name=request.node_name)\<close>, as
  \<^verbatim>\<open>start_installation\<close> builds it, in a state where nothing has happened yet.
\<close>

definition new_install_job :: "string \<Rightarrow> int \<Rightarrow> string \<Rightarrow> InstallJob" where
  "new_install_job jid panel_id node_name =
     \<lparr>ij_job_id = jid, ij_panel_id = panel_id, ij_node_name = node_name,
      ij_status = ''pending'', ij_progress = 0, ij_current_step = [], ij_logs = [],
      ij_started_at = None, ij_completed_at = None, ij_error = None, ij_result = None\<rparr>"

definition initial_run_state :: "InstallJob \<Rightarrow> run_state" where
  "initial_run_state j = \<lparr>trace = [], client_set = False, sftp_set = False, job = j\<rparr>"

section \<open>Properties of the job record and the job manager\<close>

text \<open>
  C10.  \<^verbatim>\<open>Job.update_progress(p, step)\<close> writes the progress, clamped into the range
  0..100, and writes \<^verbatim>\<open>current_step\<close> when the step is a non-empty string; the
  step is kept when it is \<^verbatim>\<open>None\<close> or empty, and every other field of the job
  (identity, type, status, logs, metadata, the three time stamps, error, result) is the
  one it was.
\<close>

theorem update_progress_frame:
  "update_progress p step j =
     j\<lparr>progress := min (max p 0) 100,
       current_step := (case step of None \<Rightarrow> current_step j
                        | Some s \<Rightarrow> if s = [] then current_step j else s)\<rparr> \<and>
   0 \<le> progress (update_progress p step j) \<and>
   progress (update_progress p step j) \<le> 100 \<and>
   current_step (update_progress p None j) = current_step j \<and>
   current_step (update_progress p (Some []) j) = current_step j \<and>
   current_step (update_progress p (Some (c # cs)) j) = c # cs \<and>
   job_id (update_progress p step j) = job_id j \<and>
   job_type (update_progress p step j) = job_type j \<and>
   status (update_progress p step j) = status j \<and>
   logs (update_progress p step j) = logs j \<and>
   metadata (update_progress p step j) = metadata j \<and>
   created_at (update_progress p step j) = created_at j \<and>
   started_at (update_progress p step j) = started_at j \<and>
   completed_at (update_progress p step j) = completed_at j \<and>
   error (update_progress p step j) = error j \<and>
   result (update_progress p step j) = result j"
  by (cases step) (simp_all add: update_progress_def Let_def)

text \<open>
  C8.  \<^verbatim>\<open>TokenInfo.is_expired\<close> is true exactly when the clock has reached the
  expiry time less five minutes, and is false for a token without an expiry time.  A token
  expiring four minutes from now is expired; one expiring ten minutes from now is not.
\<close>

theorem is_expired_buffer:
  "is_expired now \<lparr>access_token = a, expires_at = Some e\<rparr> = (now \<ge> e - minutes 5) \<and>
   is_expired now \<lparr>access_token = a, expires_at = None\<rparr> = False \<and>
   is_expired now \<lparr>access_token = a, expires_at = Some (now + minutes 4)\<rparr> \<and>
   \<not> is_expired now \<lparr>access_token = a, expires_at = Some (now + minutes 10)\<rparr>"
  by (simp add: is_expired_def minutes_def)

subsection \<open>Status transitions\<close>















text \<open>
  Outside that lifecycle the model follows the code, which does not keep a finished job
  fixed.  A task function that completes the job and then raises is failed by the
  wrapper's handler; a task that returns while \<^verbatim>\<open>cancel_job\<close> waits for it is
  completed by the wrapper and then cancelled.
\<close>

lemma raise_after_complete_example:
  "map status (jm_run
     [Run (RunStart 1 ''a''), Run (TaskComplete 2 ''b'' None), Run (RunRaise 3 ''c'' ''boom'')]
     (new_job ''j1'' ''ssh_install'' [] 0)) = [PENDING, RUNNING, COMPLETED, FAILED]"
  by (simp add: new_job_def start_def complete_def fail_def add_log_def)

lemma cancel_after_return_example:
  "map status (jm_run
     [Run (RunStart 1 ''a''), CancelJob 2 ''b'' [RunReturn 3 ''c'']]
     (new_job ''j1'' ''ssh_install'' [] 0)) = [PENDING, RUNNING, COMPLETED, CANCELLED]"
  by (simp add: new_job_def start_def complete_def cancel_def add_log_def cancel_job_found_def)

section \<open>Properties of the control-sequence stripping\<close>

lemma ansi_match_no_esc: "c \<noteq> ESC \<Longrightarrow> ansi_match (c # cs) = None"
  by (cases cs) auto

lemma strip_ansi_no_esc: "ESC \<notin> set s \<Longrightarrow> strip_ansi s = s"
  by (induction s) (auto simp: ansi_match_no_esc)

lemma every_esc_drop: "every_esc_starts_sequence s \<Longrightarrow> every_esc_starts_sequence (drop k s)"
proof (induction s arbitrary: k)
  case Nil
  then show ?case by simp
next
  case (Cons c cs)
  then show ?case by (cases k) auto
qed

text \<open>What is left after a match is a tail of the text.\<close>

lemma ansi_match_suffix: "ansi_match s = Some rest \<Longrightarrow> \<exists>k. rest = drop k s"
proof (cases s rule: ansi_match.cases)
  case (1 c d ds)
  assume a: "ansi_match s = Some rest"
  let ?n = "length (takeWhile csi_inter (dropWhile csi_param ds)) +
            length (takeWhile csi_param ds)"
  have d2: "dropWhile csi_inter (dropWhile csi_param ds) = drop ?n ds"
    by (simp add: dropWhile_eq_drop)
  show ?thesis
  proof (cases "esc_single d")
    case True
    with a 1 have "rest = drop 2 s" by (auto split: if_splits)
    then show ?thesis by blast
  next
    case False
    with a 1 obtain f where f: "dropWhile csi_inter (dropWhile csi_param ds) = f # rest"
      by (auto split: if_splits list.splits)
    from f d2 have "drop ?n ds = f # rest" by simp
    then have "rest = drop (Suc ?n) ds"
      by (metis drop_Suc tl_drop list.sel(3))
    then have "rest = drop (Suc (Suc (Suc ?n))) s" using 1 by simp
    then show ?thesis by blast
  qed
qed auto

lemma strip_ansi_esc_free:
  "every_esc_starts_sequence s \<Longrightarrow> ESC \<notin> set (strip_ansi s)"
proof (induction s rule: strip_ansi.induct)
  case 1
  then show ?case by simp
next
  case (2 c cs)
  show ?case
  proof (cases "ansi_match (c # cs)")
    case None
    with 2 show ?thesis by auto
  next
    case (Some rest)
    then obtain k where "rest = drop k (c # cs)" using ansi_match_suffix by blast
    with "2.prems" have "every_esc_starts_sequence rest" using every_esc_drop by blast
    with 2 Some show ?thesis by simp
  qed
qed

lemmas ansi_class_defs =
  ESC_def esc_single_def in_range_def csi_param_def csi_inter_def csi_final_def

text \<open>
  C6, as the code has it.  Stripping is not idempotent on every string.  In the text
  \<^verbatim>\<open>ESC ESC [ 0 m [ 0 m\<close> the first escape character starts no sequence and is kept,
  the second starts \<^verbatim>\<open>ESC [ 0 m\<close>, which is removed; what remains is
  \<^verbatim>\<open>ESC [ 0 m\<close>, a control sequence that a second stripping removes.
\<close>

theorem strip_ansi_not_idempotent_counterexample:
  "strip_ansi (ESC # ESC # ''[0m[0m'') = ESC # ''[0m'' \<and>
   strip_ansi (strip_ansi (ESC # ESC # ''[0m[0m'')) = [] \<and>
   strip_ansi (strip_ansi (ESC # ESC # ''[0m[0m'')) \<noteq> strip_ansi (ESC # ESC # ''[0m[0m'')"
  by (simp add: ansi_class_defs)

text \<open>
  C6, amended.  For every text in which each escape character begins a complete control
  sequence, stripping twice gives what stripping once gives (the stripped text holds no
  escape character any more).
\<close>

theorem strip_ansi_idempotent:
  "every_esc_starts_sequence x \<Longrightarrow> strip_ansi (strip_ansi x) = strip_ansi x"
  by (rule strip_ansi_no_esc) (rule strip_ansi_esc_free)

theorem strip_ansi_idempotent_witness:
  "every_esc_starts_sequence (ESC # ''[1;32mSERVICE_PORT:'' @ ESC # ''[0m 62060'') \<and>
   strip_ansi (ESC # ''[1;32mSERVICE_PORT:'' @ ESC # ''[0m 62060'') = ''SERVICE_PORT: 62060'' \<and>
   strip_ansi (strip_ansi (ESC # ''[1;32mSERVICE_PORT:'' @ ESC # ''[0m 62060'')) =
   strip_ansi (ESC # ''[1;32mSERVICE_PORT:'' @ ESC # ''[0m 62060'')"
proof -
  let ?x = "ESC # ''[1;32mSERVICE_PORT:'' @ ESC # ''[0m 62060''"
  have w: "every_esc_starts_sequence ?x"
    by (simp add: ansi_class_defs)
  have s: "strip_ansi ?x = ''SERVICE_PORT: 62060''"
    by (simp add: ansi_class_defs)
  show ?thesis
    by (intro conjI w s strip_ansi_idempotent[OF w])
qed

section \<open>Properties of the output parser\<close>

lemma digit_not_space: "is_digit c \<Longrightarrow> \<not> is_space c"
  by (auto simp: is_digit_def is_space_def in_range_def)

lemma takeWhile_run:
  "list_all P xs \<Longrightarrow> (case ys of [] \<Rightarrow> True | y # _ \<Rightarrow> \<not> P y) \<Longrightarrow>
   takeWhile P (xs @ ys) = xs \<and> dropWhile P (xs @ ys) = ys"
  by (induction xs) (auto split: list.splits)

lemma dropWhile_head: "case dropWhile P xs of [] \<Rightarrow> True | y # _ \<Rightarrow> \<not> P y"
  by (induction xs) auto

text \<open>The pattern at the head of a text, in words.\<close>

lemma match_number_after_iff:
  "match_number_after label t = Some ds \<longleftrightarrow>
     (\<exists>ws rest. t = label @ ws @ ds @ rest \<and> ws \<noteq> [] \<and> list_all is_space ws \<and>
        ds \<noteq> [] \<and> list_all is_digit ds \<and> (case rest of [] \<Rightarrow> True | c # _ \<Rightarrow> \<not> is_digit c))"
  (is "?L \<longleftrightarrow> ?R")
proof
  assume l: ?L
  let ?r = "drop (length label) t"
  let ?ws = "takeWhile is_space ?r"
  let ?r' = "dropWhile is_space ?r"
  let ?rest = "dropWhile is_digit ?r'"
  from l have sw: "starts_with label t"
    by (auto simp: match_number_after_def split: if_splits)
  from l sw have ds: "ds = takeWhile is_digit ?r'" and ws: "?ws \<noteq> []" and dn: "ds \<noteq> []"
    by (auto simp: match_number_after_def Let_def split: if_splits)
  from sw have "t = label @ ?r"
    by (metis append_take_drop_id starts_with_def)
  also have "?r = ?ws @ ?r'" by simp
  also have "?r' = ds @ ?rest" using ds by simp
  finally have t: "t = label @ ?ws @ ds @ ?rest" .
  have "list_all is_space ?ws"
    by (simp add: list_all_iff) (meson set_takeWhileD)
  moreover have "list_all is_digit ds"
    unfolding ds by (simp add: list_all_iff) (meson set_takeWhileD)
  moreover have "case ?rest of [] \<Rightarrow> True | c # _ \<Rightarrow> \<not> is_digit c"
    by (rule dropWhile_head)
  ultimately show ?R using t ws dn by blast
next
  assume ?R
  then obtain ws rest where t: "t = label @ ws @ ds @ rest" and ws: "ws \<noteq> []"
    and as: "list_all is_space ws" and dn: "ds \<noteq> []" and ad: "list_all is_digit ds"
    and r: "case rest of [] \<Rightarrow> True | c # _ \<Rightarrow> \<not> is_digit c"
    by blast
  from t have sw: "starts_with label t" by (simp add: starts_with_def)
  from t have dr: "drop (length label) t = ws @ (ds @ rest)" by simp
  from dn ad have "case ds @ rest of [] \<Rightarrow> True | c # _ \<Rightarrow> \<not> is_space c"
    by (cases ds) (auto simp: digit_not_space)
  from takeWhile_run[OF as this]
  have tw: "takeWhile is_space (ws @ ds @ rest) = ws"
    and dw: "dropWhile is_space (ws @ ds @ rest) = ds @ rest" by simp_all
  from takeWhile_run[OF ad r] have td: "takeWhile is_digit (ds @ rest) = ds" by simp
  show ?L
    using sw ws dn by (simp add: match_number_after_def dr tw dw td)
qed

lemma labelled_number_at_match:
  "labelled_number_at label s i ds \<longleftrightarrow>
     i \<le> length s \<and> match_number_after label (drop i s) = Some ds"
  by (simp add: labelled_number_at_def match_number_after_iff)

text \<open>\<^verbatim>\<open>re.search\<close> finds the leftmost position where the pattern matches.\<close>

lemma re_search_None:
  "re_search m s = None \<longleftrightarrow> (\<forall>i\<le>length s. m (drop i s) = None)"
proof (induction s)
  case Nil
  then show ?case by simp
next
  case (Cons c cs)
  show ?case
  proof
    assume a: "re_search m (c # cs) = None"
    then have h: "m (c # cs) = None" and t: "re_search m cs = None"
      by (auto split: option.splits)
    show "\<forall>i\<le>length (c # cs). m (drop i (c # cs)) = None"
    proof (intro allI impI)
      fix i assume "i \<le> length (c # cs)"
      then show "m (drop i (c # cs)) = None"
        using h t Cons.IH by (cases i) auto
    qed
  next
    assume a: "\<forall>i\<le>length (c # cs). m (drop i (c # cs)) = None"
    then have h: "m (c # cs) = None" by (metis drop0 le0)
    have "\<forall>i\<le>length cs. m (drop i cs) = None"
    proof (intro allI impI)
      fix i assume "i \<le> length cs"
      then have "Suc i \<le> length (c # cs)" by simp
      with a have "m (drop (Suc i) (c # cs)) = None" by blast
      then show "m (drop i cs) = None" by simp
    qed
    with Cons.IH h show "re_search m (c # cs) = None" by simp
  qed
qed

lemma re_search_leftmost:
  "i \<le> length s \<Longrightarrow> m (drop i s) = Some g \<Longrightarrow> (\<forall>j<i. m (drop j s) = None) \<Longrightarrow>
   re_search m s = Some g"
proof (induction s arbitrary: i)
  case Nil
  then show ?case by simp
next
  case (Cons c cs)
  show ?case
  proof (cases i)
    case 0
    with Cons.prems show ?thesis by simp
  next
    case (Suc n)
    with Cons.prems have h: "m (c # cs) = None" by (metis drop0 zero_less_Suc)
    have "\<forall>j<n. m (drop j cs) = None"
    proof (intro allI impI)
      fix j assume "j < n"
      then have "Suc j < i" using Suc by simp
      with Cons.prems have "m (drop (Suc j) (c # cs)) = None" by blast
      then show "m (drop j cs) = None" by simp
    qed
    with Cons.IH[of n] Cons.prems Suc have "re_search m cs = Some g" by simp
    with h show ?thesis by simp
  qed
qed

text \<open>
  C4, as the code has it.  On a failure the error message is not always the cleaned
  output: with nothing on either stream it is the text \<^verbatim>\<open>Installation failed\<close>.
\<close>

theorem parse_error_message_counterexample:
  "exit_code \<lparr>stdout = [], stderr = [], exit_code = 1\<rparr> \<noteq> 0 \<and>
   strip_ansi (stdout \<lparr>stdout = [], stderr = [], exit_code = 1\<rparr> @
               stderr \<lparr>stdout = [], stderr = [], exit_code = 1\<rparr>) = [] \<and>
   ir_error (parse_install_output \<lparr>stdout = [], stderr = [], exit_code = 1\<rparr> ''n1'' 62050 62051) =
     Some ''Installation failed'' \<and>
   ir_error (parse_install_output \<lparr>stdout = [], stderr = [], exit_code = 1\<rparr> ''n1'' 62050 62051) \<noteq>
     Some (strip_ansi (stdout \<lparr>stdout = [], stderr = [], exit_code = 1\<rparr> @
                       stderr \<lparr>stdout = [], stderr = [], exit_code = 1\<rparr>))"
  by (simp add: parse_install_output_def py_strip_def match_number_after_def starts_with_def)

text \<open>
  C4, amended.  The parser works on the combined standard output and standard error with
  the control sequences stripped.  The service port of the result is the number of the
  leftmost \<^verbatim>\<open>SERVICE_PORT:\<close> label that is followed by white space and digits, and the
  requested service port when there is no such label; likewise the api port with
  \<^verbatim>\<open>XRAY_API_PORT:\<close>.  This holds whatever the exit code.  With a non-zero exit code
  the result is a failure whose error message is the cleaned output with the white space
  at both ends trimmed, or \<^verbatim>\<open>Installation failed\<close> when nothing is left; with exit
  code zero it is a success without an error message.
\<close>

theorem parse_install_output_ports:
  "(labelled_number_at ''SERVICE_PORT:'' (strip_ansi (stdout r @ stderr r)) i ds \<and>
      (\<forall>j<i. \<forall>ds'. \<not> labelled_number_at ''SERVICE_PORT:'' (strip_ansi (stdout r @ stderr r)) j ds')
    \<longrightarrow> ir_service_port (parse_install_output r name sp ap) = int_of_digits ds) \<and>
   (labelled_number_at ''XRAY_API_PORT:'' (strip_ansi (stdout r @ stderr r)) i' ds' \<and>
      (\<forall>j<i'. \<forall>d. \<not> labelled_number_at ''XRAY_API_PORT:'' (strip_ansi (stdout r @ stderr r)) j d)
    \<longrightarrow> ir_api_port (parse_install_output r name sp ap) = int_of_digits ds') \<and>
   ((\<forall>j d. \<not> labelled_number_at ''SERVICE_PORT:'' (strip_ansi (stdout r @ stderr r)) j d)
    \<longrightarrow> ir_service_port (parse_install_output r name sp ap) = sp) \<and>
   ((\<forall>j d. \<not> labelled_number_at ''XRAY_API_PORT:'' (strip_ansi (stdout r @ stderr r)) j d)
    \<longrightarrow> ir_api_port (parse_install_output r name sp ap) = ap) \<and>
   (exit_code r \<noteq> 0 \<longrightarrow>
      \<not> ir_success (parse_install_output r name sp ap) \<and>
      ir_error (parse_install_output r name sp ap) =
        Some (if py_strip (strip_ansi (stdout r @ stderr r)) = [] then ''Installation failed''
              else py_strip (strip_ansi (stdout r @ stderr r)))) \<and>
   (exit_code r = 0 \<longrightarrow>
      ir_success (parse_install_output r name sp ap) \<and>
      ir_error (parse_install_output r name sp ap) = None)"
proof -
  let ?clean = "strip_ansi (stdout r @ stderr r)"
  let ?res = "parse_install_output r name sp ap"
  have sp_eq: "ir_service_port ?res =
      (case re_search (match_number_after ''SERVICE_PORT:'') ?clean of
         Some g \<Rightarrow> int_of_digits g | None \<Rightarrow> sp)"
    by (simp add: parse_install_output_def Let_def)
  have ap_eq: "ir_api_port ?res =
      (case re_search (match_number_after ''XRAY_API_PORT:'') ?clean of
         Some g \<Rightarrow> int_of_digits g | None \<Rightarrow> ap)"
    by (simp add: parse_install_output_def Let_def)
  have found: "re_search (match_number_after label) ?clean = Some d"
    if "labelled_number_at label ?clean k d"
      and "\<forall>j<k. \<forall>d'. \<not> labelled_number_at label ?clean j d'" for label k d
  proof (rule re_search_leftmost[of k])
    from that(1) show "k \<le> length ?clean" and "match_number_after label (drop k ?clean) = Some d"
      by (simp_all add: labelled_number_at_match)
    show "\<forall>j<k. match_number_after label (drop j ?clean) = None"
    proof (intro allI impI)
      fix j assume jk: "j < k"
      with \<open>k \<le> length ?clean\<close> have "j \<le> length ?clean" by simp
      with that(2) jk have "\<forall>d'. match_number_after label (drop j ?clean) \<noteq> Some d'"
        by (simp add: labelled_number_at_match)
      then show "match_number_after label (drop j ?clean) = None"
        by (cases "match_number_after label (drop j ?clean)") auto
    qed
  qed
  have absent: "re_search (match_number_after label) ?clean = None"
    if "\<forall>j d. \<not> labelled_number_at label ?clean j d" for label
  proof -
    have "\<forall>j\<le>length ?clean. match_number_after label (drop j ?clean) = None"
    proof (intro allI impI)
      fix j assume "j \<le> length ?clean"
      with that have "\<forall>d. match_number_after label (drop j ?clean) \<noteq> Some d"
        by (simp add: labelled_number_at_match)
      then show "match_number_after label (drop j ?clean) = None"
        by (cases "match_number_after label (drop j ?clean)") auto
    qed
    then show ?thesis by (simp add: re_search_None)
  qed
  have c1: "labelled_number_at ''SERVICE_PORT:'' ?clean i ds \<and>
      (\<forall>j<i. \<forall>ds'. \<not> labelled_number_at ''SERVICE_PORT:'' ?clean j ds')
    \<longrightarrow> ir_service_port ?res = int_of_digits ds"
  proof (intro impI, elim conjE)
    assume "labelled_number_at ''SERVICE_PORT:'' ?clean i ds"
      and "\<forall>j<i. \<forall>ds'. \<not> labelled_number_at ''SERVICE_PORT:'' ?clean j ds'"
    from found[OF this] show "ir_service_port ?res = int_of_digits ds"
      by (simp only: sp_eq option.case)
  qed
  have c2: "labelled_number_at ''XRAY_API_PORT:'' ?clean i' ds' \<and>
      (\<forall>j<i'. \<forall>d. \<not> labelled_number_at ''XRAY_API_PORT:'' ?clean j d)
    \<longrightarrow> ir_api_port ?res = int_of_digits ds'"
  proof (intro impI, elim conjE)
    assume "labelled_number_at ''XRAY_API_PORT:'' ?clean i' ds'"
      and "\<forall>j<i'. \<forall>d. \<not> labelled_number_at ''XRAY_API_PORT:'' ?clean j d"
    from found[OF this] show "ir_api_port ?res = int_of_digits ds'"
      by (simp only: ap_eq option.case)
  qed
  have c3: "(\<forall>j d. \<not> labelled_number_at ''SERVICE_PORT:'' ?clean j d) \<longrightarrow> ir_service_port ?res = sp"
  proof
    assume "\<forall>j d. \<not> labelled_number_at ''SERVICE_PORT:'' ?clean j d"
    from absent[OF this] show "ir_service_port ?res = sp"
      by (simp only: sp_eq option.case)
  qed
  have c4: "(\<forall>j d. \<not> labelled_number_at ''XRAY_API_PORT:'' ?clean j d) \<longrightarrow> ir_api_port ?res = ap"
  proof
    assume "\<forall>j d. \<not> labelled_number_at ''XRAY_API_PORT:'' ?clean j d"
    from absent[OF this] show "ir_api_port ?res = ap"
      by (simp only: ap_eq option.case)
  qed
  have c5: "exit_code r \<noteq> 0 \<longrightarrow> \<not> ir_success ?res \<and>
      ir_error ?res = Some (if py_strip ?clean = [] then ''Installation failed'' else py_strip ?clean)"
    by (simp add: parse_install_output_def Let_def)
  have c6: "exit_code r = 0 \<longrightarrow> ir_success ?res \<and> ir_error ?res = None"
    by (simp add: parse_install_output_def Let_def)
  from c1 c2 c3 c4 c5 c6 show ?thesis by blast
qed

lemma re_search_Some:
  "re_search m s = Some g \<Longrightarrow>
   \<exists>i\<le>length s. m (drop i s) = Some g \<and> (\<forall>j<i. m (drop j s) = None)"
proof (induction s)
  case Nil
  then show ?case by simp
next
  case (Cons c cs)
  show ?case
  proof (cases "m (c # cs)")
    case (Some a)
    with Cons.prems have "m (drop 0 (c # cs)) = Some g" by simp
    then show ?thesis by blast
  next
    case None
    with Cons.prems have "re_search m cs = Some g" by simp
    from Cons.IH[OF this] obtain i where i: "i \<le> length cs" "m (drop i cs) = Some g"
      "\<forall>j<i. m (drop j cs) = None" by blast
    have "\<forall>j<Suc i. m (drop j (c # cs)) = None"
    proof (intro allI impI)
      fix j assume "j < Suc i"
      then show "m (drop j (c # cs)) = None"
        using None i(3) by (cases j) auto
    qed
    with i(1,2) have "Suc i \<le> length (c # cs) \<and> m (drop (Suc i) (c # cs)) = Some g \<and>
        (\<forall>j<Suc i. m (drop j (c # cs)) = None)" by simp
    then show ?thesis by blast
  qed
qed

lemma labelled_number_leftmost:
  assumes "re_search (match_number_after label) s = Some ds"
  shows "\<exists>i. labelled_number_at label s i ds \<and> (\<forall>j<i. \<forall>d. \<not> labelled_number_at label s j d)"
proof -
  from re_search_Some[OF assms] obtain i where i: "i \<le> length s"
    "match_number_after label (drop i s) = Some ds"
    "\<forall>j<i. match_number_after label (drop j s) = None" by blast
  then have "labelled_number_at label s i ds \<and> (\<forall>j<i. \<forall>d. \<not> labelled_number_at label s j d)"
    by (simp add: labelled_number_at_match)
  then show ?thesis by blast
qed

lemma labelled_number_absent:
  assumes "re_search (match_number_after label) s = None"
  shows "\<forall>j d. \<not> labelled_number_at label s j d"
  using assms by (simp add: re_search_None labelled_number_at_match)

lemmas parse_defs = ansi_class_defs is_space_def is_digit_def int_of_digits_def py_strip_def
  starts_with_def match_number_after_def match_word_after_def digits_dot_def match_dotted_quad_def
  match_public_ip_def

text \<open>
  The theorem at two failed installations: one whose output carries both labels, in
  colour, and one whose output carries neither.
\<close>

theorem parse_install_output_ports_witness:
  "ir_service_port (parse_install_output
     \<lparr>stdout = ESC # ''[1;32m  SERVICE_PORT:        62060'' @ [CHR 0x0A] @
                ''  XRAY_API_PORT:       62061'' @ ESC # ''[0m'' @ [CHR 0x0A],
      stderr = ''docker: error'', exit_code = 1\<rparr> ''n1'' 62050 62051) = 62060 \<and>
   ir_api_port (parse_install_output
     \<lparr>stdout = ESC # ''[1;32m  SERVICE_PORT:        62060'' @ [CHR 0x0A] @
                ''  XRAY_API_PORT:       62061'' @ ESC # ''[0m'' @ [CHR 0x0A],
      stderr = ''docker: error'', exit_code = 1\<rparr> ''n1'' 62050 62051) = 62061 \<and>
   \<not> ir_success (parse_install_output
     \<lparr>stdout = ESC # ''[1;32m  SERVICE_PORT:        62060'' @ [CHR 0x0A] @
                ''  XRAY_API_PORT:       62061'' @ ESC # ''[0m'' @ [CHR 0x0A],
      stderr = ''docker: error'', exit_code = 1\<rparr> ''n1'' 62050 62051) \<and>
   ir_service_port (parse_install_output
     \<lparr>stdout = '' boom '', stderr = [], exit_code = 1\<rparr> ''n1'' 62050 62051) = 62050 \<and>
   ir_api_port (parse_install_output
     \<lparr>stdout = '' boom '', stderr = [], exit_code = 1\<rparr> ''n1'' 62050 62051) = 62051 \<and>
   ir_error (parse_install_output
     \<lparr>stdout = '' boom '', stderr = [], exit_code = 1\<rparr> ''n1'' 62050 62051) = Some ''boom''"
proof -
  let ?r = "\<lparr>stdout = ESC # ''[1;32m  SERVICE_PORT:        62060'' @ [CHR 0x0A] @
                ''  XRAY_API_PORT:       62061'' @ ESC # ''[0m'' @ [CHR 0x0A],
      stderr = ''docker: error'', exit_code = 1\<rparr>"
  let ?q = "\<lparr>stdout = '' boom '', stderr = [], exit_code = 1::int\<rparr>"
  have clean_r: "strip_ansi (stdout ?r @ stderr ?r) =
      ''  SERVICE_PORT:        62060'' @ [CHR 0x0A] @ ''  XRAY_API_PORT:       62061'' @
      [CHR 0x0A] @ ''docker: error''"
    by (simp add: ansi_class_defs)
  have clean_q: "strip_ansi (stdout ?q @ stderr ?q) = '' boom ''"
    by (simp add: ansi_class_defs)
  have "re_search (match_number_after ''SERVICE_PORT:'') (strip_ansi (stdout ?r @ stderr ?r)) =
      Some ''62060''"
    unfolding clean_r by (simp add: parse_defs)
  from labelled_number_leftmost[OF this] obtain i where
    i: "labelled_number_at ''SERVICE_PORT:'' (strip_ansi (stdout ?r @ stderr ?r)) i ''62060''"
       "\<forall>j<i. \<forall>d. \<not> labelled_number_at ''SERVICE_PORT:'' (strip_ansi (stdout ?r @ stderr ?r)) j d"
    by blast
  have "re_search (match_number_after ''XRAY_API_PORT:'') (strip_ansi (stdout ?r @ stderr ?r)) =
      Some ''62061''"
    unfolding clean_r by (simp add: parse_defs)
  from labelled_number_leftmost[OF this] obtain i' where
    i': "labelled_number_at ''XRAY_API_PORT:'' (strip_ansi (stdout ?r @ stderr ?r)) i' ''62061''"
       "\<forall>j<i'. \<forall>d. \<not> labelled_number_at ''XRAY_API_PORT:'' (strip_ansi (stdout ?r @ stderr ?r)) j d"
    by blast
  note at_r = parse_install_output_ports[of ?r i "''62060''" "''n1''" 62050 62051 i' "''62061''"]
  have x: "exit_code ?r \<noteq> 0" by simp
  from at_r i have p1: "ir_service_port (parse_install_output ?r ''n1'' 62050 62051) =
      int_of_digits ''62060''" by blast
  from at_r i' have p2: "ir_api_port (parse_install_output ?r ''n1'' 62050 62051) =
      int_of_digits ''62061''" by blast
  from at_r x have p3: "\<not> ir_success (parse_install_output ?r ''n1'' 62050 62051)" by blast
  have "re_search (match_number_after ''SERVICE_PORT:'') (strip_ansi (stdout ?q @ stderr ?q)) = None"
    unfolding clean_q by (simp add: parse_defs)
  note no_sp = labelled_number_absent[OF this]
  have "re_search (match_number_after ''XRAY_API_PORT:'') (strip_ansi (stdout ?q @ stderr ?q)) = None"
    unfolding clean_q by (simp add: parse_defs)
  note no_ap = labelled_number_absent[OF this]
  note at_q = parse_install_output_ports[of ?q 0 "[]" "''n1''" 62050 62051 0 "[]"]
  have y: "exit_code ?q \<noteq> 0" by simp
  from at_q no_sp have q1: "ir_service_port (parse_install_output ?q ''n1'' 62050 62051) = 62050"
    by blast
  from at_q no_ap have q2: "ir_api_port (parse_install_output ?q ''n1'' 62050 62051) = 62051"
    by blast
  from at_q y have "ir_error (parse_install_output ?q ''n1'' 62050 62051) =
      Some (if py_strip (strip_ansi (stdout ?q @ stderr ?q)) = [] then ''Installation failed''
            else py_strip (strip_ansi (stdout ?q @ stderr ?q)))" by blast
  also have "py_strip (strip_ansi (stdout ?q @ stderr ?q)) = ''boom''"
    unfolding clean_q by (simp add: parse_defs)
  finally have q3: "ir_error (parse_install_output ?q ''n1'' 62050 62051) = Some ''boom''"
    by simp
  have v1: "int_of_digits ''62060'' = 62060" and v2: "int_of_digits ''62061'' = 62061"
    by (simp_all add: int_of_digits_def)
  show ?thesis
    using p1 p2 p3 q1 q2 q3 unfolding v1 v2 by (intro conjI)
qed

section \<open>Properties of the remote shell and the node installer\<close>

text \<open>
  C9.  An \<^verbatim>\<open>SSHClient\<close> built without a password and without a private key fails to
  connect with the error ``No authentication method provided'', and the failed call
  makes no connection attempt: the events of the outside world are the ones before the
  call.
\<close>

theorem connect_without_credentials:
  "ssh_password c = None \<and> ssh_private_key c = None \<longrightarrow>
   fst (connect w c s) = Inl (SSHConnectionError ''No authentication method provided'') \<and>
   trace (snd (connect w c s)) = trace s"
  by (simp add: connect_def connect_sync_def truthy_def)

theorem connect_without_credentials_witness:
  "fst (connect (host_with (ExecSSHException []))
     \<lparr>ssh_host = ''10.0.0.5'', ssh_port = 22, ssh_username = ''root'', ssh_password = None,
      ssh_private_key = None, ssh_timeout = 30\<rparr>
     \<lparr>trace = [], client_set = False, sftp_set = False\<rparr>) =
     Inl (SSHConnectionError ''No authentication method provided'') \<and>
   trace (snd (connect (host_with (ExecSSHException []))
     \<lparr>ssh_host = ''10.0.0.5'', ssh_port = 22, ssh_username = ''root'', ssh_password = None,
      ssh_private_key = None, ssh_timeout = 30\<rparr>
     \<lparr>trace = [], client_set = False, sftp_set = False\<rparr>)) = []"
  using connect_without_credentials[of
     "\<lparr>ssh_host = ''10.0.0.5'', ssh_port = 22, ssh_username = ''root'', ssh_password = None,
      ssh_private_key = None, ssh_timeout = 30\<rparr>" "host_with (ExecSSHException [])"
     "\<lparr>trace = [], client_set = False, sftp_set = False\<rparr>"]
  by simp

lemma upload_content_trace:
  "upload_content w data path mode s = (Inr (), s1) \<Longrightarrow>
   trace s1 = trace s @ [SftpWrite path data, SftpChmod path mode] \<and> client_set s1"
  by (auto simp: upload_content_def Let_def split: if_splits option.splits)

lemma execute_trace:
  "client_set s \<Longrightarrow> t \<noteq> 0 \<Longrightarrow>
   trace (snd (execute w c cmd t s)) = trace s @ [SshExec cmd t] \<and>
   client_set (snd (execute w c cmd t s)) \<and>
   fst (execute w c cmd t s) =
     (case exec_answer w (trace s) cmd t of
        ExecOk r \<Rightarrow> Inr r
      | ExecSSHException m \<Rightarrow> Inl (SSHCommandError (''Command execution failed: '' @ m))
      | ExecRaises e \<Rightarrow> Inl e)"
  by (auto simp: execute_def Let_def split: exec_outcome.splits)

lemmas example_defs = host_with_def root_at_def connected_def starts_with_def
  cert_path_of_def install_command_def string_of_int_def string_of_nat.simps digit_char_def

lemmas step_defs = and_then_def return_def raise_def execute_def upload_content_def
  is_cli_installed_def install_cli_def install_node_def install_node_from_upload_def

text \<open>
  What \<^verbatim>\<open>install_node\<close> does from the certificate upload on, once the upload has
  returned: the certificate has been written to \<^verbatim>\<open>/tmp/ssl_cert_<name>.pem\<close> and the
  mode of that file set to \<^verbatim>\<open>0o600\<close> (384); when the install command returns a
  result, whatever its exit code, the next command executed is \<^verbatim>\<open>rm -f\<close> on that
  file; when executing the install command raises, the call ends with that exception right
  after the install command.
\<close>

lemma install_node_from_upload_trace:
  assumes up: "upload_content w certificate (cert_path_of name) 384 s = (Inr (), s1)"
  shows "trace s1 = trace s @ [SftpWrite (cert_path_of name) certificate,
                               SftpChmod (cert_path_of name) 384] \<and>
    (\<forall>r. exec_answer w (trace s1)
            (install_command name method service_port api_port inbounds auto_ports) 300 = ExecOk r
       \<longrightarrow> trace (snd (install_node_from_upload w c name certificate service_port api_port
                          method inbounds auto_ports s)) =
           trace s1 @ [SshExec (install_command name method service_port api_port inbounds
                                  auto_ports) 300,
                       SshExec (''rm -f '' @ cert_path_of name) 10]) \<and>
    ((\<forall>r. exec_answer w (trace s1)
            (install_command name method service_port api_port inbounds auto_ports) 300 \<noteq> ExecOk r)
       \<longrightarrow> trace (snd (install_node_from_upload w c name certificate service_port api_port
                          method inbounds auto_ports s)) =
           trace s1 @ [SshExec (install_command name method service_port api_port inbounds
                                  auto_ports) 300] \<and>
           (\<exists>e. fst (install_node_from_upload w c name certificate service_port api_port
                          method inbounds auto_ports s) = Inl e))"
proof -
  let ?cmd = "install_command name method service_port api_port inbounds auto_ports"
  let ?run = "install_node_from_upload w c name certificate service_port api_port
                method inbounds auto_ports s"
  from upload_content_trace[OF up] have t1: "trace s1 = trace s @
      [SftpWrite (cert_path_of name) certificate, SftpChmod (cert_path_of name) 384]"
    and cs: "client_set s1" by simp_all
  have e1: "trace (snd (execute w c ?cmd 300 s1)) = trace s1 @ [SshExec ?cmd 300]"
    and c1: "client_set (snd (execute w c ?cmd 300 s1))"
    and f1: "fst (execute w c ?cmd 300 s1) =
      (case exec_answer w (trace s1) ?cmd 300 of
        ExecOk r \<Rightarrow> Inr r
      | ExecSSHException m \<Rightarrow> Inl (SSHCommandError (''Command execution failed: '' @ m))
      | ExecRaises e \<Rightarrow> Inl e)"
    using execute_trace[OF cs, of 300 w c ?cmd] by simp_all
  have run: "?run = (case execute w c ?cmd 300 s1 of
      (Inl e, s2) \<Rightarrow> (Inl e, s2)
    | (Inr res, s2) \<Rightarrow>
        (case execute w c (''rm -f '' @ cert_path_of name) 10 s2 of
           (Inl e, s3) \<Rightarrow> (Inl e, s3)
         | (Inr _, s3) \<Rightarrow> (Inr (parse_install_output res name service_port api_port), s3)))"
    by (simp add: install_node_from_upload_def and_then_def up return_def
        split: prod.splits sum.splits)
  have ok: "trace (snd ?run) = trace s1 @ [SshExec ?cmd 300, SshExec (''rm -f '' @ cert_path_of name) 10]"
    if "exec_answer w (trace s1) ?cmd 300 = ExecOk r" for r
  proof -
    from f1 that have "fst (execute w c ?cmd 300 s1) = Inr r" by simp
    then obtain s2 where x: "execute w c ?cmd 300 s1 = (Inr r, s2)"
      by (cases "execute w c ?cmd 300 s1") auto
    with e1 c1 have t2: "trace s2 = trace s1 @ [SshExec ?cmd 300]" and c2: "client_set s2"
      by simp_all
    from execute_trace[OF c2, of 10 w c "''rm -f '' @ cert_path_of name"]
    have "trace (snd (execute w c (''rm -f '' @ cert_path_of name) 10 s2)) =
          trace s2 @ [SshExec (''rm -f '' @ cert_path_of name) 10]" by simp
    then show ?thesis
      unfolding run x using t2 by (auto split: prod.splits sum.splits)
  qed
  have bad: "trace (snd ?run) = trace s1 @ [SshExec ?cmd 300] \<and> (\<exists>e. fst ?run = Inl e)"
    if "\<forall>r. exec_answer w (trace s1) ?cmd 300 \<noteq> ExecOk r"
  proof -
    from that f1 obtain e where "fst (execute w c ?cmd 300 s1) = Inl e"
      by (cases "exec_answer w (trace s1) ?cmd 300") auto
    then obtain s2 where x: "execute w c ?cmd 300 s1 = (Inl e, s2)"
      by (cases "execute w c ?cmd 300 s1") auto
    with e1 have "trace s2 = trace s1 @ [SshExec ?cmd 300]" by simp
    then show ?thesis unfolding run x by simp
  qed
  from t1 ok bad show ?thesis by blast
qed

text \<open>An install command that fails with exit code 1: the file is removed.\<close>

lemma install_node_from_upload_trace_example:
  "upload_content (host_with (ExecOk \<lparr>stdout = ''Error: port in use'', stderr = [], exit_code = 1\<rparr>))
     ''CERT'' (cert_path_of ''n1'') 384 connected =
     (Inr (), \<lparr>trace = [SftpWrite ''/tmp/ssl_cert_n1.pem'' ''CERT'',
                         SftpChmod ''/tmp/ssl_cert_n1.pem'' 384],
               client_set = True, sftp_set = True\<rparr>) \<and>
   trace (snd (install_node_from_upload
     (host_with (ExecOk \<lparr>stdout = ''Error: port in use'', stderr = [], exit_code = 1\<rparr>))
     (root_at ''10.0.0.5'') ''n1'' ''CERT'' 62050 62051 ''docker'' None True connected)) =
     [SftpWrite ''/tmp/ssl_cert_n1.pem'' ''CERT'',
      SftpChmod ''/tmp/ssl_cert_n1.pem'' 384,
      SshExec ''marzban-node-manager install -n n1 -c /tmp/ssl_cert_n1.pem -m docker -y'' 300,
      SshExec ''rm -f /tmp/ssl_cert_n1.pem'' 10]"
proof -
  let ?r = "\<lparr>stdout = ''Error: port in use'', stderr = [], exit_code = 1::int\<rparr>"
  let ?w = "host_with (ExecOk ?r)"
  let ?s1 = "\<lparr>trace = [SftpWrite ''/tmp/ssl_cert_n1.pem'' ''CERT'',
                       SftpChmod ''/tmp/ssl_cert_n1.pem'' 384],
             client_set = True, sftp_set = True\<rparr>"
  have up: "upload_content ?w ''CERT'' (cert_path_of ''n1'') 384 connected = (Inr (), ?s1)"
    by (simp add: upload_content_def example_defs)
  have ans: "exec_answer ?w (trace ?s1)
      (install_command ''n1'' ''docker'' 62050 62051 None True) 300 = ExecOk ?r"
    by (simp add: example_defs)
  note th = install_node_from_upload_trace[OF up, of "''docker''" 62050 62051 None True
      "root_at ''10.0.0.5''"]
  from th ans have "trace (snd (install_node_from_upload ?w (root_at ''10.0.0.5'') ''n1'' ''CERT''
      62050 62051 ''docker'' None True connected)) =
      trace ?s1 @ [SshExec (install_command ''n1'' ''docker'' 62050 62051 None True) 300,
                   SshExec (''rm -f '' @ cert_path_of ''n1'') 10]"
    by blast
  then have "trace (snd (install_node_from_upload ?w (root_at ''10.0.0.5'') ''n1'' ''CERT''
      62050 62051 ''docker'' None True connected)) =
     [SftpWrite ''/tmp/ssl_cert_n1.pem'' ''CERT'',
      SftpChmod ''/tmp/ssl_cert_n1.pem'' 384,
      SshExec ''marzban-node-manager install -n n1 -c /tmp/ssl_cert_n1.pem -m docker -y'' 300,
      SshExec ''rm -f /tmp/ssl_cert_n1.pem'' 10]"
    by (simp add: cert_path_of_def install_command_def)
  with up show ?thesis by (intro conjI)
qed

text \<open>
  A certificate upload whose \<^verbatim>\<open>chmod\<close> raises: the file has been written, its mode
  has not been set, and the call ends there, before any install command or removal.
\<close>

lemma install_node_chmod_raises_example:
  "install_node
     ((host_with (ExecSSHException []))
        \<lparr>sftp_chmod_answer := (\<lambda>h p m. Some (PyException ''Permission denied''))\<rparr>)
     (root_at ''10.0.0.5'') ''n1'' ''CERT'' 62050 62051 ''docker'' None False connected =
   (Inl (PyException ''Permission denied''),
    \<lparr>trace = [SshExec ''which marzban-node-manager'' 10,
              SftpWrite ''/tmp/ssl_cert_n1.pem'' ''CERT'',
              SftpChmod ''/tmp/ssl_cert_n1.pem'' 384],
     client_set = True, sftp_set = True\<rparr>)"
  by (simp add: step_defs example_defs)

text \<open>
  C7.  The claim is that the temporary certificate file is deleted on every outcome of the
  install command, also when executing the command raises.  In the code the deletion is
  the statement after the install command, outside any \<^verbatim>\<open>finally\<close>.  At the call
  below the command line tool is present, the certificate is uploaded with mode
  \<^verbatim>\<open>0o600\<close> (384), and the connection breaks while the install command runs:
  \<^verbatim>\<open>execute\<close> raises \<^verbatim>\<open>SSHCommandError\<close>, the exception leaves
  \<^verbatim>\<open>install_node\<close>, the install command is the last thing sent to the host, and no
  \<^verbatim>\<open>rm -f\<close> of the file is ever sent: the file stays on the host.
\<close>

theorem install_node_raise_leaves_certificate:
  "fst (install_node (host_with (ExecSSHException ''channel closed'')) (root_at ''10.0.0.5'')
          ''n1'' ''CERT'' 62050 62051 ''docker'' None False connected) =
     Inl (SSHCommandError ''Command execution failed: channel closed'') \<and>
   trace (snd (install_node (host_with (ExecSSHException ''channel closed'')) (root_at ''10.0.0.5'')
          ''n1'' ''CERT'' 62050 62051 ''docker'' None False connected)) =
     [SshExec ''which marzban-node-manager'' 10,
      SftpWrite ''/tmp/ssl_cert_n1.pem'' ''CERT'',
      SftpChmod ''/tmp/ssl_cert_n1.pem'' 384,
      SshExec ''marzban-node-manager install -n n1 -c /tmp/ssl_cert_n1.pem -m docker -y -s 62050 -x 62051'' 300] \<and>
   SshExec ''rm -f /tmp/ssl_cert_n1.pem'' 10 \<notin>
     set (trace (snd (install_node (host_with (ExecSSHException ''channel closed''))
          (root_at ''10.0.0.5'') ''n1'' ''CERT'' 62050 62051 ''docker'' None False connected)))"
  by (simp add: step_defs example_defs)

section \<open>Properties of the cascading delete\<close>

lemma continues_upstream_refl: "continues_upstream t t"
  by (simp add: continues_upstream_def)

lemma continues_upstream_trans:
  "continues_upstream a b \<Longrightarrow> continues_upstream b c \<Longrightarrow> continues_upstream a c"
  by (auto simp: continues_upstream_def)

lemma continues_upstream_snoc:
  "upstream_event e \<Longrightarrow> continues_upstream t (t @ [e])"
  by (simp add: continues_upstream_def)

lemma connect_continues: "continues_upstream (trace s) (trace (snd (connect w c s)))"
  by (auto simp: connect_def connect_sync_def Let_def continues_upstream_refl
      continues_upstream_snoc split: sum.splits connect_outcome.splits)

lemma execute_continues: "continues_upstream (trace s) (trace (snd (execute w c cmd tm s)))"
  by (auto simp: execute_def Let_def continues_upstream_refl continues_upstream_snoc
      split: exec_outcome.splits)

lemma close_continues: "continues_upstream (trace s) (trace (snd (close w s)))"
  by (auto simp: close_def Let_def continues_upstream_refl continues_upstream_snoc
      split: option.splits)

lemma uninstall_node_continues:
  "continues_upstream (trace s) (trace (snd (uninstall_node w c name s)))"
proof -
  let ?e = "execute w c (''marzban-node-manager uninstall -n '' @ name @ '' -y'') 120 s"
  have "trace (snd (uninstall_node w c name s)) = trace (snd ?e)"
    by (cases ?e) (auto simp: uninstall_node_def and_then_def return_def split: sum.splits)
  then show ?thesis by (simp add: execute_continues)
qed

lemma uninstall_from_server_continues:
  "continues_upstream t (snd (uninstall_from_server w profile name t))"
proof (cases "credentials_answer w t profile")
  case (Inl e)
  then show ?thesis by (simp add: uninstall_from_server_def continues_upstream_refl)
next
  case (Inr oc)
  show ?thesis
  proof (cases oc)
    case None
    with Inr show ?thesis by (simp add: uninstall_from_server_def continues_upstream_refl)
  next
    case (Some c)
    let ?s0 = "\<lparr>trace = t, client_set = False, sftp_set = False\<rparr>"
    let ?body = "and_then (connect w c) (\<lambda>_. uninstall_node w c name) ?s0"
    have b: "continues_upstream t (trace (snd ?body))"
    proof (cases "connect w c ?s0")
      case (Pair r s1)
      have c1: "continues_upstream t (trace s1)"
        using connect_continues[of ?s0 w c] Pair by simp
      show ?thesis
      proof (cases r)
        case (Inl e)
        with Pair c1 show ?thesis by (simp add: and_then_def)
      next
        case (Inr u)
        with Pair have "snd ?body = snd (uninstall_node w c name s1)"
          by (simp add: and_then_def)
        with c1 uninstall_node_continues[of s1 w c name] show ?thesis
          by (auto intro: continues_upstream_trans)
      qed
    qed
    have "snd (uninstall_from_server w profile name t) = trace (snd (close w (snd ?body)))"
      using Inr Some
      by (auto simp: uninstall_from_server_def split: prod.splits sum.splits)
    with b close_continues[of "snd ?body" w] show ?thesis
      by (auto intro: continues_upstream_trans)
  qed
qed

lemma delete_from_marzban_continues:
  "continues_upstream t (snd (delete_from_marzban w panel name t))"
  by (auto simp: delete_from_marzban_def Let_def continues_upstream_def
      split: sum.splits bool.splits option.splits)

lemma panel_layer_facts:
  "continues_upstream t (snd (panel_layer w dm existing t)) \<and>
   (fst (fst (panel_layer w dm existing t)) = None \<longleftrightarrow> \<not> dm) \<and>
   length (snd (fst (panel_layer w dm existing t))) =
     (if dm \<and> fst (fst (panel_layer w dm existing t)) \<noteq> Some True then 1 else 0)"
proof (cases dm)
  case False
  then show ?thesis by (simp add: panel_layer_def continues_upstream_refl)
next
  case True
  obtain r t1 where d: "delete_from_marzban w (MarzbanPanelID existing) (NodeName existing) t = (r, t1)"
    by (cases "delete_from_marzban w (MarzbanPanelID existing) (NodeName existing) t")
  from delete_from_marzban_continues[of t w "MarzbanPanelID existing" "NodeName existing"] d
  have "continues_upstream t t1" by simp
  with True d show ?thesis
    by (cases r) (auto simp: panel_layer_def)
qed

lemma server_layer_facts:
  "continues_upstream t (snd (server_layer w ds existing t)) \<and>
   (fst (fst (server_layer w ds existing t)) = None \<longleftrightarrow> \<not> ds) \<and>
   length (snd (fst (server_layer w ds existing t))) =
     (if ds \<and> fst (fst (server_layer w ds existing t)) \<noteq> Some True then 1 else 0)"
proof (cases "ds \<and> truthy_int (SSHProfileID existing)")
  case False
  then show ?thesis by (auto simp: server_layer_def continues_upstream_refl)
next
  case True
  obtain r t1 where d: "uninstall_from_server w (the (SSHProfileID existing)) (NodeName existing) t = (r, t1)"
    by (cases "uninstall_from_server w (the (SSHProfileID existing)) (NodeName existing) t")
  from uninstall_from_server_continues[of t w "the (SSHProfileID existing)" "NodeName existing"] d
  have "continues_upstream t t1" by simp
  with True d show ?thesis
    by (cases r) (auto simp: server_layer_def)
qed

lemma local_layer_facts:
  "\<exists>post. snd (local_layer w node_id dm ds ip existing t) = t @ DbDeleteNode node_id # post \<and>
     (post = [] \<or> (\<exists>d v. post = [AuditLog ''Node'' node_id ''DELETE'' d v ip])) \<and>
     fst (fst (local_layer w node_id dm ds ip existing t)) =
       (db_delete_answer w t node_id = Inr True) \<and>
     length (snd (fst (local_layer w node_id dm ds ip existing t))) \<le> 1"
  by (auto simp: local_layer_def Let_def split: sum.splits bool.splits option.splits)

text \<open>
  What every call of \<^verbatim>\<open>delete_node\<close> on an existing node does: it returns a
  response (it does not raise); its events are upstream events (panel calls, remote shell
  activity), then the local deletion, then at most the audit record, so the local deletion
  is attempted, and attempted after the upstream layers, whatever they did; the panel
  flag (server flag) is null exactly when that layer was not requested; \<^verbatim>\<open>success\<close>
  is the outcome of the local deletion; every requested upstream layer that did not
  succeed contributes one error message, and the local step at most one more.  When both
  cascades are requested, the panel deletion raises \<open>e\<close>, and the server uninstall, the
  local deletion and the audit record succeed, the response is success, local, panel flag
  false, server flag true, and the one message ``Failed to delete from Marzban: ''
  followed by the text of \<open>e\<close>.
\<close>

lemma delete_node_layers:
  assumes ex: "find_node_answer w t node_id = Inr (Some existing)"
  shows "\<exists>resp up post.
     delete_node w node_id dm ds ip t = (Inr resp, t @ up @ DbDeleteNode node_id # post) \<and>
     list_all upstream_event up \<and>
     (post = [] \<or> (\<exists>d v. post = [AuditLog ''Node'' node_id ''DELETE'' d v ip])) \<and>
     (nd_marzban resp = None \<longleftrightarrow> \<not> dm) \<and>
     (nd_server resp = None \<longleftrightarrow> \<not> ds) \<and>
     nd_success resp = nd_local resp \<and>
     nd_local resp = (db_delete_answer w (t @ up) node_id = Inr True) \<and>
     (if dm \<and> nd_marzban resp \<noteq> Some True then 1 else 0) +
       (if ds \<and> nd_server resp \<noteq> Some True then 1 else (0::nat)) \<le> length (nd_errors resp) \<and>
     length (nd_errors resp) \<le>
       (if dm \<and> nd_marzban resp \<noteq> Some True then 1 else 0) +
       (if ds \<and> nd_server resp \<noteq> Some True then 1 else 0) + 1 \<and>
     (\<forall>e t1 t2.
        dm \<and> ds \<and> truthy_int (SSHProfileID existing) \<and>
        delete_from_marzban w (MarzbanPanelID existing) (NodeName existing) t = (Inl e, t1) \<and>
        uninstall_from_server w (the (SSHProfileID existing)) (NodeName existing) t1 = (Inr True, t2) \<and>
        db_delete_answer w t2 node_id = Inr True \<and>
        log_audit_answer w (t2 @ [DbDeleteNode node_id]) = None
        \<longrightarrow> resp = \<lparr>nd_success = True, nd_local = True, nd_marzban = Some False,
                      nd_server = Some True,
                      nd_errors = [''Failed to delete from Marzban: '' @ str_exn e]\<rparr>)"
proof -
  obtain m e1 t1 where p: "panel_layer w dm existing t = ((m, e1), t1)"
    by (metis surj_pair)
  obtain sv e2 t2 where s: "server_layer w ds existing t1 = ((sv, e2), t2)"
    by (metis surj_pair)
  obtain l e3 t3 where lo: "local_layer w node_id dm ds ip existing t2 = ((l, e3), t3)"
    by (metis surj_pair)
  let ?resp = "\<lparr>nd_success = l, nd_local = l, nd_marzban = m, nd_server = sv,
                nd_errors = e1 @ e2 @ e3\<rparr>"
  have run: "delete_node w node_id dm ds ip t = (Inr ?resp, t3)"
    by (simp add: delete_node_def ex p s lo)
  from panel_layer_facts[of t w dm existing] p
  have p1: "continues_upstream t t1" and p2: "(m = None) = (\<not> dm)"
    and p3: "length e1 = (if dm \<and> m \<noteq> Some True then 1 else 0)" by simp_all
  from server_layer_facts[of t1 w ds existing] s
  have s1: "continues_upstream t1 t2" and s2: "(sv = None) = (\<not> ds)"
    and s3: "length e2 = (if ds \<and> sv \<noteq> Some True then 1 else 0)" by simp_all
  from continues_upstream_trans[OF p1 s1] obtain up where
    up: "t2 = t @ up" "list_all upstream_event up"
    by (auto simp: continues_upstream_def)
  from local_layer_facts[of w node_id dm ds ip existing t2] lo obtain post where
    l1: "t3 = t2 @ DbDeleteNode node_id # post"
    and l2: "post = [] \<or> (\<exists>d v. post = [AuditLog ''Node'' node_id ''DELETE'' d v ip])"
    and l3: "l = (db_delete_answer w t2 node_id = Inr True)"
    and l4: "length e3 \<le> 1" by auto
  have scen: "?resp = \<lparr>nd_success = True, nd_local = True, nd_marzban = Some False,
                      nd_server = Some True,
                      nd_errors = [''Failed to delete from Marzban: '' @ str_exn e]\<rparr>"
    if a: "dm \<and> ds \<and> truthy_int (SSHProfileID existing) \<and>
        delete_from_marzban w (MarzbanPanelID existing) (NodeName existing) t = (Inl e, u1) \<and>
        uninstall_from_server w (the (SSHProfileID existing)) (NodeName existing) u1 = (Inr True, u2) \<and>
        db_delete_answer w u2 node_id = Inr True \<and>
        log_audit_answer w (u2 @ [DbDeleteNode node_id]) = None" for e u1 u2
  proof -
    from a p have pe: "m = Some False" "e1 = [''Failed to delete from Marzban: '' @ str_exn e]"
      "t1 = u1" by (simp_all add: panel_layer_def)
    from a s pe have se: "sv = Some True" "e2 = []" "t2 = u2"
      by (simp_all add: server_layer_def)
    from a lo se have "l = True" "e3 = []"
      by (simp_all add: local_layer_def Let_def)
    with pe se show ?thesis by simp
  qed
  have f1: "delete_node w node_id dm ds ip t = (Inr ?resp, t @ up @ DbDeleteNode node_id # post)"
    using run l1 up by simp
  have f2: "nd_local ?resp = (db_delete_answer w (t @ up) node_id = Inr True)"
    using l3 up by simp
  have f3: "(if dm \<and> nd_marzban ?resp \<noteq> Some True then 1 else 0) +
       (if ds \<and> nd_server ?resp \<noteq> Some True then 1 else (0::nat)) \<le> length (nd_errors ?resp)"
    using p3 s3 by simp
  have f4: "length (nd_errors ?resp) \<le>
       (if dm \<and> nd_marzban ?resp \<noteq> Some True then 1 else 0) +
       (if ds \<and> nd_server ?resp \<noteq> Some True then 1 else 0) + 1"
    using p3 s3 l4 by simp
  have f5: "(nd_marzban ?resp = None) = (\<not> dm)" and f6: "(nd_server ?resp = None) = (\<not> ds)"
    and f7: "nd_success ?resp = nd_local ?resp"
    using p2 s2 by simp_all
  have body: "delete_node w node_id dm ds ip t = (Inr ?resp, t @ up @ DbDeleteNode node_id # post) \<and>
     list_all upstream_event up \<and>
     (post = [] \<or> (\<exists>d v. post = [AuditLog ''Node'' node_id ''DELETE'' d v ip])) \<and>
     (nd_marzban ?resp = None \<longleftrightarrow> \<not> dm) \<and>
     (nd_server ?resp = None \<longleftrightarrow> \<not> ds) \<and>
     nd_success ?resp = nd_local ?resp \<and>
     nd_local ?resp = (db_delete_answer w (t @ up) node_id = Inr True) \<and>
     (if dm \<and> nd_marzban ?resp \<noteq> Some True then 1 else 0) +
       (if ds \<and> nd_server ?resp \<noteq> Some True then 1 else (0::nat)) \<le> length (nd_errors ?resp) \<and>
     length (nd_errors ?resp) \<le>
       (if dm \<and> nd_marzban ?resp \<noteq> Some True then 1 else 0) +
       (if ds \<and> nd_server ?resp \<noteq> Some True then 1 else 0) + 1 \<and>
     (\<forall>e t1 t2.
        dm \<and> ds \<and> truthy_int (SSHProfileID existing) \<and>
        delete_from_marzban w (MarzbanPanelID existing) (NodeName existing) t = (Inl e, t1) \<and>
        uninstall_from_server w (the (SSHProfileID existing)) (NodeName existing) t1 = (Inr True, t2) \<and>
        db_delete_answer w t2 node_id = Inr True \<and>
        log_audit_answer w (t2 @ [DbDeleteNode node_id]) = None
        \<longrightarrow> ?resp = \<lparr>nd_success = True, nd_local = True, nd_marzban = Some False,
                      nd_server = Some True,
                      nd_errors = [''Failed to delete from Marzban: '' @ str_exn e]\<rparr>)"
  proof (intro conjI allI impI)
    fix e u1 u2
    assume "dm \<and> ds \<and> truthy_int (SSHProfileID existing) \<and>
        delete_from_marzban w (MarzbanPanelID existing) (NodeName existing) t = (Inl e, u1) \<and>
        uninstall_from_server w (the (SSHProfileID existing)) (NodeName existing) u1 = (Inr True, u2) \<and>
        db_delete_answer w u2 node_id = Inr True \<and>
        log_audit_answer w (u2 @ [DbDeleteNode node_id]) = None"
    then show "?resp = \<lparr>nd_success = True, nd_local = True, nd_marzban = Some False,
                      nd_server = Some True,
                      nd_errors = [''Failed to delete from Marzban: '' @ str_exn e]\<rparr>"
      by (rule scen)
  qed (fact f1 up(2) l2 f5 f6 f7 f2 f3 f4)+
  show ?thesis
    by (intro exI) (rule body)
qed

text \<open>Scenario E with an audit record that is written without error.\<close>

lemma delete_node_layers_scenario_E:
  "find_node_answer scenario_E_world [] 12 =
     Inr (Some \<lparr>NodeName = ''edge-1'', MarzbanPanelID = 3, SSHProfileID = Some 7\<rparr>) \<and>
   fst (delete_node scenario_E_world 12 True True (Some ''203.0.113.9'') []) =
     Inr \<lparr>nd_success = True, nd_local = True, nd_marzban = Some False, nd_server = Some True,
          nd_errors = [''Failed to delete from Marzban: Network error: connection refused'']\<rparr> \<and>
   snd (delete_node scenario_E_world 12 True True (Some ''203.0.113.9'') []) =
     [PanelGetNodes 3,
      SshConnect ''10.0.0.5'' 22 ''root'' (AuthPassword ''secret''),
      SshExec ''marzban-node-manager uninstall -n edge-1 -y'' 120,
      SshClose,
      DbDeleteNode 12,
      AuditLog ''Node'' 12 ''DELETE'' (''Deleted node '' @ [CHR 0x27] @ ''edge-1'' @ [CHR 0x27])
        [(''name'', PStr ''edge-1''), (''delete_from_marzban'', PBool True),
         (''delete_from_server'', PBool True)] (Some ''203.0.113.9'')]"
proof -
  let ?w = scenario_E_world
  let ?row = "\<lparr>NodeName = ''edge-1'', MarzbanPanelID = 3, SSHProfileID = Some 7\<rparr>"
  let ?t1 = "[PanelGetNodes 3]"
  let ?t2 = "[PanelGetNodes 3,
      SshConnect ''10.0.0.5'' 22 ''root'' (AuthPassword ''secret''),
      SshExec ''marzban-node-manager uninstall -n edge-1 -y'' 120,
      SshClose]"
  let ?e = "MarzbanConnectionError ''Network error: connection refused''"
  have ex: "find_node_answer ?w [] 12 = Inr (Some ?row)"
    by (simp add: scenario_E_world_def)
  have a1: "delete_from_marzban ?w (MarzbanPanelID ?row) (NodeName ?row) [] = (Inl ?e, ?t1)"
    by (simp add: delete_from_marzban_def scenario_E_world_def)
  have a2: "uninstall_from_server ?w (the (SSHProfileID ?row)) (NodeName ?row) ?t1 = (Inr True, ?t2)"
    by (simp add: uninstall_from_server_def scenario_E_world_def root_at_def and_then_def
        connect_def connect_sync_def truthy_def uninstall_node_def execute_def close_def
        return_def)
  have a3: "db_delete_answer ?w ?t2 12 = Inr True"
    and a4: "log_audit_answer ?w (?t2 @ [DbDeleteNode 12]) = None"
    and a5: "truthy_int (SSHProfileID ?row)"
    by (simp_all add: scenario_E_world_def truthy_int_def)
  from delete_node_layers[OF ex, of True True "Some ''203.0.113.9''"] obtain resp up post where
    run: "delete_node ?w 12 True True (Some ''203.0.113.9'') [] =
            (Inr resp, [] @ up @ DbDeleteNode 12 # post)"
    and scen: "\<forall>e t1 t2.
        True \<and> True \<and> truthy_int (SSHProfileID ?row) \<and>
        delete_from_marzban ?w (MarzbanPanelID ?row) (NodeName ?row) [] = (Inl e, t1) \<and>
        uninstall_from_server ?w (the (SSHProfileID ?row)) (NodeName ?row) t1 = (Inr True, t2) \<and>
        db_delete_answer ?w t2 12 = Inr True \<and>
        log_audit_answer ?w (t2 @ [DbDeleteNode 12]) = None
        \<longrightarrow> resp = \<lparr>nd_success = True, nd_local = True, nd_marzban = Some False,
                      nd_server = Some True,
                      nd_errors = [''Failed to delete from Marzban: '' @ str_exn e]\<rparr>"
    by blast
  from scen a1 a2 a3 a4 a5 have "resp = \<lparr>nd_success = True, nd_local = True,
      nd_marzban = Some False, nd_server = Some True,
      nd_errors = [''Failed to delete from Marzban: '' @ str_exn ?e]\<rparr>"
    by blast
  with run have r: "fst (delete_node ?w 12 True True (Some ''203.0.113.9'') []) =
     Inr \<lparr>nd_success = True, nd_local = True, nd_marzban = Some False, nd_server = Some True,
          nd_errors = [''Failed to delete from Marzban: Network error: connection refused'']\<rparr>"
    by simp
  have tr: "snd (delete_node ?w 12 True True (Some ''203.0.113.9'') []) =
     ?t2 @ [DbDeleteNode 12,
      AuditLog ''Node'' 12 ''DELETE'' (''Deleted node '' @ [CHR 0x27] @ ''edge-1'' @ [CHR 0x27])
        [(''name'', PStr ''edge-1''), (''delete_from_marzban'', PBool True),
         (''delete_from_server'', PBool True)] (Some ''203.0.113.9'')]"
    using a1 a2 a3 a4
    by (simp add: delete_node_def ex panel_layer_def server_layer_def local_layer_def
        truthy_int_def)
  from ex r tr show ?thesis by simp
qed

text \<open>
  C3.  The claim is that each layer failure appends an error string, and that in
  scenario E (both cascades requested, the panel deletion raises a connection error, the
  server uninstall and the local deletion succeed) the response carries exactly one error
  message, the one of the panel.  The local step of the code does neither.  Its
  \<^verbatim>\<open>try\<close> holds the deletion and the audit record together, so in scenario E an
  audit record that raises after the row has been deleted adds a second message,
  ``Failed to delete from local database: ...'', to a response whose \<^verbatim>\<open>local\<close>
  and \<^verbatim>\<open>success\<close> are true.  And where the panel step and the server step append a
  message when their call returns false, the local step has no such branch: a deletion
  that returns false (the row is gone by then) gives \<^verbatim>\<open>success\<close> and
  \<^verbatim>\<open>local\<close> false with an empty list of errors.
\<close>

theorem delete_node_local_step_errors:
  "delete_node
     (scenario_E_world\<lparr>log_audit_answer := (\<lambda>h. Some (PyException ''audit table is locked''))\<rparr>)
     12 True True (Some ''203.0.113.9'') [] =
     (Inr \<lparr>nd_success = True, nd_local = True, nd_marzban = Some False, nd_server = Some True,
           nd_errors = [''Failed to delete from Marzban: Network error: connection refused'',
                        ''Failed to delete from local database: audit table is locked'']\<rparr>,
      [PanelGetNodes 3,
       SshConnect ''10.0.0.5'' 22 ''root'' (AuthPassword ''secret''),
       SshExec ''marzban-node-manager uninstall -n edge-1 -y'' 120,
       SshClose,
       DbDeleteNode 12,
       AuditLog ''Node'' 12 ''DELETE'' (''Deleted node '' @ [CHR 0x27] @ ''edge-1'' @ [CHR 0x27])
         [(''name'', PStr ''edge-1''), (''delete_from_marzban'', PBool True),
          (''delete_from_server'', PBool True)] (Some ''203.0.113.9'')]) \<and>
   delete_node (scenario_E_world\<lparr>db_delete_answer := (\<lambda>h node_id. Inr False)\<rparr>)
     12 False False None [] =
     (Inr \<lparr>nd_success = False, nd_local = False, nd_marzban = None, nd_server = None,
           nd_errors = []\<rparr>,
      [DbDeleteNode 12])"
  by (simp add: delete_node_def panel_layer_def server_layer_def local_layer_def
      delete_from_marzban_def uninstall_from_server_def scenario_E_world_def root_at_def
      and_then_def connect_def connect_sync_def truthy_def uninstall_node_def execute_def
      close_def return_def truthy_int_def Let_def)

section \<open>Properties of the panel client's retry loop\<close>

lemmas panel_example_defs = panel_always_def client_with_token_def state_with_token_def
  ensure_authenticated_def is_expired_def string_of_nat.simps digit_char_def

text \<open>
  The loop as modelled, on a panel that never answers in time: three attempts, a pause of
  one second and then of two seconds between them, none after the last, and the last
  error raised.
\<close>

lemma request_timeouts_exhaust:
  "request (panel_always (Raises (TimeoutException ''timed out''))) client_with_token
     ''GET'' ''/api/nodes'' True state_with_token =
   (Inl (MarzbanConnectionError ''Request timeout: timed out''),
    \<lparr>events = [HttpRequest ''GET'' ''https://panel.example/api/nodes'' (Some ''tok''), Sleep 1,
               HttpRequest ''GET'' ''https://panel.example/api/nodes'' (Some ''tok''), Sleep 2,
               HttpRequest ''GET'' ''https://panel.example/api/nodes'' (Some ''tok'')],
     token = Some \<lparr>access_token = ''tok'', expires_at = None\<rparr>\<rparr>)"
  by (simp add: request.simps request_loop.simps panel_example_defs)

lemma request_not_found_at_once:
  "request (panel_always (Response \<lparr>status_code = 404, content = ''Not Found''\<rparr>))
     client_with_token ''GET'' ''/api/node/9'' True state_with_token =
   (Inl (MarzbanNotFoundError ''Resource not found: /api/node/9''),
    \<lparr>events = [HttpRequest ''GET'' ''https://panel.example/api/node/9'' (Some ''tok'')],
     token = Some \<lparr>access_token = ''tok'', expires_at = None\<rparr>\<rparr>)"
  by (simp add: request.simps request_loop.simps panel_example_defs)

text \<open>
  C2, where the code departs from the claim.  A response with a status of 500 or more
  makes the loop body raise \<^verbatim>\<open>MarzbanServerError\<close>, which no handler of the loop
  catches: with a usable token and at least one attempt allowed, the call ends with that
  error after one request, without a pause and without a second attempt, whatever the
  number of attempts allowed.
\<close>

theorem request_server_error_not_retried:
  assumes "token s = Some tk"
    and "\<not> is_expired (utcnow_answer w (events s)) tk"
    and "0 < max_retries c"
    and "request_answer w (events s) method (base_url c @ endpoint) (Some (access_token tk)) =
           Response r"
    and "500 \<le> status_code r"
  shows "request w c method endpoint retry_auth s =
     (Inl (MarzbanServerError
             (''Server error '' @ string_of_nat (status_code r) @ '': '' @ content r)),
      s\<lparr>events := events s @
           [HttpRequest method (base_url c @ endpoint) (Some (access_token tk))]\<rparr>)"
  using assms
  by (simp add: request.simps request_loop.simps[of w c "method" endpoint retry_auth 0]
      ensure_authenticated_def)

text \<open>The theorem at a panel that answers 503, with three attempts allowed.\<close>

theorem request_server_error_not_retried_witness:
  "max_retries client_with_token = 3 \<and>
   request (panel_always (Response \<lparr>status_code = 503, content = ''Service Unavailable''\<rparr>))
     client_with_token ''GET'' ''/api/nodes'' True state_with_token =
   (Inl (MarzbanServerError ''Server error 503: Service Unavailable''),
    \<lparr>events = [HttpRequest ''GET'' ''https://panel.example/api/nodes'' (Some ''tok'')],
     token = Some \<lparr>access_token = ''tok'', expires_at = None\<rparr>\<rparr>)"
proof -
  let ?w = "panel_always (Response \<lparr>status_code = 503, content = ''Service Unavailable''\<rparr>)"
  let ?tk = "\<lparr>access_token = ''tok'', expires_at = None\<rparr>"
  have "request ?w client_with_token ''GET'' ''/api/nodes'' True state_with_token =
     (Inl (MarzbanServerError
             (''Server error '' @ string_of_nat (status_code \<lparr>status_code = 503,
                 content = ''Service Unavailable''\<rparr>) @ '': '' @
              content \<lparr>status_code = 503, content = ''Service Unavailable''\<rparr>)),
      state_with_token\<lparr>events := events state_with_token @
           [HttpRequest ''GET'' (base_url client_with_token @ ''/api/nodes'')
              (Some (access_token ?tk))]\<rparr>)"
    by (rule request_server_error_not_retried)
       (simp_all add: panel_always_def client_with_token_def state_with_token_def is_expired_def)
  then show ?thesis
    by (simp add: client_with_token_def state_with_token_def string_of_nat.simps digit_char_def)
qed

section \<open>Properties of the installation run\<close>

lemmas run_defs = run_installation_def installation_steps_def installation_body_def
  get_ssh_credentials_def get_or_create_ssh_profile_def register_node_def with_ssh_def
  world_read_def world_call_def raised_def change_job_def ij_add_log_def pyval_of_opt_def

lemmas scenario_C_defs = scenario_C_world_def scenario_C_request_def new_install_job_def
  initial_run_state_def root_at_def

text \<open>
  The flag \<^verbatim>\<open>auto_ports\<close> of the request is read nowhere in
  \<^verbatim>\<open>SSHInstallService._run_installation\<close>: two requests that differ in it only give
  the same run.
\<close>

lemma get_ssh_credentials_reads_no_auto_ports:
  "get_ssh_credentials w (req\<lparr>rq_auto_ports := b\<rparr>) = get_ssh_credentials w req"
  by (simp add: get_ssh_credentials_def cong: if_cong)

lemma get_or_create_ssh_profile_reads_no_auto_ports:
  "get_or_create_ssh_profile w (req\<lparr>rq_auto_ports := b\<rparr>) = get_or_create_ssh_profile w req"
  by (simp add: get_or_create_ssh_profile_def cong: if_cong)

lemma installation_body_reads_no_auto_ports:
  "installation_body w (req\<lparr>rq_auto_ports := b\<rparr>) client_ip creds profile_id certificate =
   installation_body w req client_ip creds profile_id certificate"
  by (simp add: installation_body_def cong: if_cong)

lemma run_installation_reads_no_auto_ports:
  "run_installation w (req\<lparr>rq_auto_ports := b\<rparr>) client_ip s =
   run_installation w req client_ip s"
  by (simp add: run_installation_def installation_steps_def
      get_ssh_credentials_reads_no_auto_ports get_or_create_ssh_profile_reads_no_auto_ports
      installation_body_reads_no_auto_ports cong: if_cong)

text \<open>
  C1, where the code departs from the claim.  In scenario C the request sets
  \<^verbatim>\<open>auto_ports\<close> and asks for the ports 62050 and 62051, and the installer reports
  62060 and 62061.  The install command that \<^verbatim>\<open>_run_installation\<close> runs still
  carries \<^verbatim>\<open>-s 62050 -x 62051\<close>: it is the command built without
  \<^verbatim>\<open>auto_ports\<close>, not the one built with it.  The downstream steps do use the
  returned ports: the node row, the panel registration, the audit record and the result
  of the job all carry 62060 and 62061.
\<close>

theorem run_installation_scenario_C:
  "rq_auto_ports scenario_C_request \<and>
   trace (run_installation scenario_C_world scenario_C_request (Some ''203.0.113.9'')
            (initial_run_state (new_install_job ''job-1'' 3 ''node1''))) =
     [GetCertificate 3,
      SshConnect ''10.0.0.5'' 22 ''root'' (AuthPassword ''secret''),
      SshExec ''which marzban-node-manager'' 10,
      SshExec ''marzban-node-manager --version'' 10,
      SshExec ''which marzban-node-manager'' 10,
      SftpWrite ''/tmp/ssl_cert_node1.pem'' ''CERT'',
      SftpChmod ''/tmp/ssl_cert_node1.pem'' 384,
      SshExec (install_command ''node1'' ''docker'' 62050 62051 None False) 300,
      SshExec ''rm -f /tmp/ssl_cert_node1.pem'' 10,
      DbInsertNode
        [(''MarzbanPanelID'', PInt 3), (''NodeName'', PStr ''node1''),
         (''Address'', PStr ''10.0.0.5''), (''ServicePort'', PInt 62060),
         (''APIPort'', PInt 62061), (''NodeStatusID'', PInt 20),
         (''SSHProfileID'', PInt 7)],
      PanelCreateNode ''node1'' ''10.0.0.5'' 62060 62061,
      DbUpdateStatus 41 10,
      AuditLog ''Node'' 41 ''SSH_INSTALL''
        (''Installed node '' @ [CHR 0x27] @ ''node1'' @ [CHR 0x27] @ '' via SSH'')
        [(''address'', PStr ''10.0.0.5''), (''ports'', PStr ''62060/62061'')]
        (Some ''203.0.113.9''),
      SshClose] \<and>
   install_command ''node1'' ''docker'' 62050 62051 None False =
     ''marzban-node-manager install -n node1 -c /tmp/ssl_cert_node1.pem -m docker -y -s 62050 -x 62051'' \<and>
   install_command ''node1'' ''docker'' 62050 62051 None True =
     ''marzban-node-manager install -n node1 -c /tmp/ssl_cert_node1.pem -m docker -y'' \<and>
   ij_result (job (run_installation scenario_C_world scenario_C_request (Some ''203.0.113.9'')
            (initial_run_state (new_install_job ''job-1'' 3 ''node1'')))) =
     Some [(''node_id'', PInt 41), (''node_name'', PStr ''node1''),
           (''address'', PStr ''10.0.0.5''), (''service_port'', PInt 62060),
           (''api_port'', PInt 62061), (''ssh_profile_id'', PInt 7)]"
proof -
  let ?run = "run_installation scenario_C_world scenario_C_request (Some ''203.0.113.9'')
            (initial_run_state (new_install_job ''job-1'' 3 ''node1''))"
  have c1: "install_command ''node1'' ''docker'' 62050 62051 None False =
     ''marzban-node-manager install -n node1 -c /tmp/ssl_cert_node1.pem -m docker -y -s 62050 -x 62051''"
    by (simp add: install_command_def cert_path_of_def string_of_int_def string_of_nat.simps
        digit_char_def)
  have c2: "install_command ''node1'' ''docker'' 62050 62051 None True =
     ''marzban-node-manager install -n node1 -c /tmp/ssl_cert_node1.pem -m docker -y''"
    by (simp add: install_command_def cert_path_of_def)
  have r: "?run =
     \<lparr>trace = [GetCertificate 3,
      SshConnect ''10.0.0.5'' 22 ''root'' (AuthPassword ''secret''),
      SshExec ''which marzban-node-manager'' 10,
      SshExec ''marzban-node-manager --version'' 10,
      SshExec ''which marzban-node-manager'' 10,
      SftpWrite ''/tmp/ssl_cert_node1.pem'' ''CERT'',
      SftpChmod ''/tmp/ssl_cert_node1.pem'' 384,
      SshExec ''marzban-node-manager install -n node1 -c /tmp/ssl_cert_node1.pem -m docker -y -s 62050 -x 62051'' 300,
      SshExec ''rm -f /tmp/ssl_cert_node1.pem'' 10,
      DbInsertNode
        [(''MarzbanPanelID'', PInt 3), (''NodeName'', PStr ''node1''),
         (''Address'', PStr ''10.0.0.5''), (''ServicePort'', PInt 62060),
         (''APIPort'', PInt 62061), (''NodeStatusID'', PInt 20),
         (''SSHProfileID'', PInt 7)],
      PanelCreateNode ''node1'' ''10.0.0.5'' 62060 62061,
      DbUpdateStatus 41 10,
      AuditLog ''Node'' 41 ''SSH_INSTALL''
        (''Installed node '' @ [CHR 0x27] @ ''node1'' @ [CHR 0x27] @ '' via SSH'')
        [(''address'', PStr ''10.0.0.5''), (''ports'', PStr ''62060/62061'')]
        (Some ''203.0.113.9''),
      SshClose],
      client_set = False, sftp_set = False,
      job = \<lparr>ij_job_id = ''job-1'', ij_panel_id = 3, ij_node_name = ''node1'',
        ij_status = ''completed'', ij_progress = 100,
        ij_current_step = ''Registering node in Marzban'',
        ij_logs =
          [''Preparing SSH credentials...'',
           ''Using existing SSH profile (ID: 7)'',
           ''Fetching certificate from panel...'',
           ''Certificate fetched successfully'',
           ''Connecting to 10.0.0.5:22...'', ''Connected to 10.0.0.5'',
           ''CLI already installed (v1.2.0)'',
           ''Installing node '' @ [CHR 0x27] @ ''node1'' @ [CHR 0x27] @ ''...'',
           ''Node installed successfully'',
           ''Registering node in Marzban panel...'',
           ''Node registered with ID: 41'', ''Installation complete!''],
        ij_started_at = Some 1000, ij_completed_at = Some 1013, ij_error = None,
        ij_result =
          Some [(''node_id'', PInt 41), (''node_name'', PStr ''node1''),
                (''address'', PStr ''10.0.0.5''), (''service_port'', PInt 62060),
                (''api_port'', PInt 62061), (''ssh_profile_id'', PInt 7)]\<rparr>\<rparr>"
    by (simp add: run_defs scenario_C_defs step_defs example_defs ansi_class_defs parse_defs
        parse_install_output_def connect_def connect_sync_def close_def truthy_def
        truthy_int_def str_opt_def get_cli_version_def match_version_def Let_def)
  have a: "rq_auto_ports scenario_C_request"
    by (simp add: scenario_C_request_def)
  show ?thesis
    unfolding r c1 c2 using a by simp
qed

end
